theory Spec2Isabelle
  imports Main
begin

section \<open>The v3 client: server update status\<close>

text \<open>
  \<^verbatim>\<open>strings.Join(elems, sep)\<close>: the elements in order, with the separator between
  consecutive ones.
\<close>

fun Join :: "string list \<Rightarrow> string \<Rightarrow> string" where
  "Join [] sep = []"
| "Join [x] sep = x"
| "Join (x # y # ys) sep = x @ sep @ Join (y # ys) sep"

text \<open>
  The outcome of a client call: \<open>Inl msg\<close> when the function returns its own error
  without issuing a request, \<open>Inr path\<close> when it issues \<^verbatim>\<open>to.post(path, nil, nil, &alerts)\<close>
  (the session's transport is not part of this file; what the function decides is the path).
\<close>

type_synonym client_call = "string + string"

definition nothing_to_do_times :: string where
  "nothing_to_do_times =
     ''one must be non-nil (configUpdateTime, configApplyTime, revalUpdateTime, revalApplyTime); nothing to do''"

text \<open>
  \<^verbatim>\<open>SetUpdateServerStatusTimes\<close>. The four \<^verbatim>\<open>*time.Time\<close> arguments are options; \<open>Format\<close>
  stands for \<^verbatim>\<open>t.Format(time.RFC3339Nano)\<close>. Every inner test of the source reads
  \<^verbatim>\<open>configUpdateTime != nil\<close>, whatever the argument of the enclosing block.
\<close>

definition SetUpdateServerStatusTimes ::
  "('t \<Rightarrow> string) \<Rightarrow> string \<Rightarrow> 't option \<Rightarrow> 't option \<Rightarrow> 't option \<Rightarrow> 't option \<Rightarrow> client_call" where
  "SetUpdateServerStatusTimes Format serverName configUpdateTime configApplyTime revalUpdateTime revalApplyTime =
     (if configUpdateTime = None \<and> configApplyTime = None \<and> revalUpdateTime = None \<and> revalApplyTime = None
      then Inl nothing_to_do_times
      else
        let path = ''/servers/'' @ serverName @ ''/update?'';
            queryParams = [];
            queryParams = (case configUpdateTime of None \<Rightarrow> queryParams
               | Some t \<Rightarrow> (let cut = Format t in
                   if configUpdateTime \<noteq> None then queryParams @ [''config_update_time='' @ cut] else queryParams));
            queryParams = (case configApplyTime of None \<Rightarrow> queryParams
               | Some t \<Rightarrow> (let cat = Format t in
                   if configUpdateTime \<noteq> None then queryParams @ [''config_apply_time='' @ cat] else queryParams));
            queryParams = (case revalUpdateTime of None \<Rightarrow> queryParams
               | Some t \<Rightarrow> (let rut = Format t in
                   if configUpdateTime \<noteq> None then queryParams @ [''revalidate_update_time='' @ rut] else queryParams));
            queryParams = (case revalApplyTime of None \<Rightarrow> queryParams
               | Some t \<Rightarrow> (let rat = Format t in
                   if configUpdateTime \<noteq> None then queryParams @ [''revalidate_apply_time='' @ rat] else queryParams));
            path = path @ Join queryParams ''&''
        in Inr path)"

section \<open>The store of the invalidation-job engine\<close>

text \<open>
  Instants (\<^verbatim>\<open>time.Time\<close>, SQL timestamps) are integers on one time line;
  \<^verbatim>\<open>a.Before(b)\<close> is \<open>a < b\<close>.
\<close>

type_synonym time = int

text \<open>Decimal text of a number, as SQL's \<^verbatim>\<open>::text\<close> and \<^verbatim>\<open>CONCAT\<close> print it.\<close>

definition digit :: "nat \<Rightarrow> char" where
  "digit n = ''0123456789'' ! (n mod 10)"

fun show_nat :: "nat \<Rightarrow> string" where
  "show_nat n = (if n < 10 then [digit n] else show_nat (n div 10) @ [digit n])"

declare show_nat.simps [simp del]

definition show_int :: "int \<Rightarrow> string" where
  "show_int i = (if i < 0 then ''-'' @ show_nat (nat (- i)) else show_nat (nat i))"

text \<open>The tables the statements of the handlers read and write, one record per row.\<close>

record origin_row =
  o_deliveryservice :: nat
  o_is_primary :: bool
  o_protocol :: string
  o_fqdn :: string
  o_port :: "nat option"

record deliveryservice_row =
  ds_id :: nat
  ds_xml_id :: string
  ds_tenant_id :: nat
  ds_cdn_id :: nat

record tm_user_row =
  u_id :: nat
  u_username :: string
  u_tenant_id :: nat

record tenant_row =
  t_id :: nat
  t_parent_id :: "nat option"

record invalidation_row =
  inv_id :: nat
  inv_ttl_hr :: int
  inv_asset_url :: string
  inv_start_time :: time
  inv_entered_time :: time
  inv_job_user :: nat
  inv_job_deliveryservice :: nat
  inv_invalidation_type :: string

record server_row =
  srv_id :: nat
  srv_status :: nat
  srv_profile :: nat
  srv_cdn_id :: nat
  srv_upd_pending :: bool
  srv_reval_pending :: bool

record status_row =
  st_id :: nat
  st_name :: string

record parameter_row =
  p_id :: nat
  p_name :: string
  p_config_file :: string
  p_value :: string

record profile_parameter_row =
  pp_profile :: nat
  pp_parameter :: nat

record database =
  origin :: "origin_row list"
  deliveryservice :: "deliveryservice_row list"
  tm_user :: "tm_user_row list"
  tenant :: "tenant_row list"
  invalidation :: "invalidation_row list"
  invalidation_id_seq :: nat
  server :: "server_row list"
  status :: "status_row list"
  parameter :: "parameter_row list"
  profile_parameter :: "profile_parameter_row list"
  log :: "(string \<times> string \<times> nat) list"

text \<open>
  What a statement can fail with: \<^verbatim>\<open>sql.ErrNoRows\<close> of a \<^verbatim>\<open>QueryRow\<close> without a
  row, or any other error of the store or its driver.
\<close>

datatype dberror = ErrNoRows | ErrStore string

text \<open>
  A scalar subquery: no row is NULL, one row is its value, and more than one row is an
  error of the statement.
\<close>

definition scalar :: "'a list \<Rightarrow> dberror + 'a option" where
  "scalar rows =
     (case rows of [] \<Rightarrow> Inr None
      | [x] \<Rightarrow> Inr (Some x)
      | _ \<Rightarrow> Inl (ErrStore ''more than one row returned by a subquery used as an expression''))"

text \<open>\<^verbatim>\<open>QueryRow(...).Scan\<close>: the first row, or \<^verbatim>\<open>sql.ErrNoRows\<close>.\<close>

definition first_row :: "'a list \<Rightarrow> dberror + 'a" where
  "first_row rows = (case rows of [] \<Rightarrow> Inl ErrNoRows | x # _ \<Rightarrow> Inr x)"

text \<open>\<^verbatim>\<open>rtrim(s, ':')\<close> removes the trailing colons of \<open>s\<close>.\<close>

definition rtrim :: "string \<Rightarrow> char \<Rightarrow> string" where
  "rtrim s c = rev (dropWhile (\<lambda>x. x = c) (rev s))"

text \<open>
  \<^verbatim>\<open>o.protocol::text || '://' || o.fqdn || rtrim(concat(':', o.port::text), ':')\<close>:
  \<^verbatim>\<open>concat\<close> skips a NULL port, and the lone colon is then trimmed away.
\<close>

definition origin_text :: "origin_row \<Rightarrow> string" where
  "origin_text org =
     o_protocol org @ ''://'' @ o_fqdn org @
       rtrim ('':'' @ (case o_port org of None \<Rightarrow> [] | Some p \<Rightarrow> show_nat p)) CHR '':''"

text \<open>\<^verbatim>\<open>CONCAT('TTL:', ttl_hr, 'h')\<close>\<close>

definition ttl_parameters :: "int \<Rightarrow> string" where
  "ttl_parameters ttl = ''TTL:'' @ show_int ttl @ ''h''"

text \<open>
  \<^verbatim>\<open>tc.InvalidationJob\<close>: every field is a pointer in the source, so every field is an
  option here and \<open>None\<close> is the nil pointer.
\<close>

record InvalidationJob =
  AssetURL :: "string option"
  CreatedBy :: "string option"
  DeliveryService :: "string option"
  ID :: "nat option"
  Keyword :: "string option"
  Parameters :: "string option"
  StartTime :: "time option"

definition empty_job :: InvalidationJob where
  "empty_job = \<lparr>AssetURL = None, CreatedBy = None, DeliveryService = None, ID = None,
                 Keyword = None, Parameters = None, StartTime = None\<rparr>"

text \<open>The two correlated subqueries of every \<^verbatim>\<open>RETURNING\<close> clause.\<close>

definition username_of :: "database \<Rightarrow> nat \<Rightarrow> dberror + string option" where
  "username_of db uid = scalar (map u_username (filter (\<lambda>u. u_id u = uid) (tm_user db)))"

definition xml_id_of :: "database \<Rightarrow> nat \<Rightarrow> dberror + string option" where
  "xml_id_of db dsid = scalar (map ds_xml_id (filter (\<lambda>d. ds_id d = dsid) (deliveryservice db)))"

text \<open>
  The columns \<^verbatim>\<open>asset_url, created_by, deliveryservice, id, 'PURGE', CONCAT('TTL:', ttl_hr, 'h'),
  start_time\<close> that the insert, the update and the delete return for a row.
\<close>

definition returning :: "database \<Rightarrow> invalidation_row \<Rightarrow> dberror + InvalidationJob" where
  "returning db row =
     (case xml_id_of db (inv_job_deliveryservice row) of Inl e \<Rightarrow> Inl e
      | Inr ds \<Rightarrow>
     (case username_of db (inv_job_user row) of Inl e \<Rightarrow> Inl e
      | Inr u \<Rightarrow>
        Inr \<lparr>AssetURL = Some (inv_asset_url row), CreatedBy = u, DeliveryService = ds,
             ID = Some (inv_id row), Keyword = Some ''PURGE'',
             Parameters = Some (ttl_parameters (inv_ttl_hr row)),
             StartTime = Some (inv_start_time row)\<rparr>))"

text \<open>
  \<^verbatim>\<open>insertQuery\<close>. The asset URL is the text of the primary origin of delivery service
  \<open>$2\<close> followed by \<open>$3\<close>; without a primary origin it is NULL, which the column
  \<^verbatim>\<open>asset_url\<close> does not hold, so the statement fails. The id comes from the sequence of
  the table, and an id already present violates the primary key.
\<close>

definition insertQuery ::
  "database \<Rightarrow> int \<Rightarrow> nat \<Rightarrow> string \<Rightarrow> time \<Rightarrow> time \<Rightarrow> nat \<Rightarrow> nat \<Rightarrow> string
     \<Rightarrow> dberror + InvalidationJob \<times> database" where
  "insertQuery db ttl origin_ds regex start entered uid dsid invalidation_type =
     (case scalar (map origin_text
              (filter (\<lambda>org. o_deliveryservice org = origin_ds \<and> o_is_primary org) (origin db))) of
        Inl e \<Rightarrow> Inl e
      | Inr None \<Rightarrow> Inl (ErrStore ''null value in column asset_url'')
      | Inr (Some ofqdn) \<Rightarrow>
          let new_id = Suc (invalidation_id_seq db);
              row = \<lparr>inv_id = new_id, inv_ttl_hr = ttl, inv_asset_url = ofqdn @ regex,
                     inv_start_time = start, inv_entered_time = entered, inv_job_user = uid,
                     inv_job_deliveryservice = dsid, inv_invalidation_type = invalidation_type\<rparr>
          in if new_id \<in> set (map inv_id (invalidation db))
             then Inl (ErrStore ''duplicate key value violates unique constraint'')
             else (case returning db row of Inl e \<Rightarrow> Inl e
                   | Inr job \<Rightarrow>
                       Inr (job, db\<lparr>invalidation := invalidation db @ [row],
                                    invalidation_id_seq := new_id\<rparr>)))"

text \<open>
  What \<^verbatim>\<open>putInfoQuery\<close> selects for the job \<open>$1\<close>: the job joined with the primary
  origins of its delivery service, with its creator and with its delivery service. The
  handler scans the first row.
\<close>

record put_info =
  pi_id :: nat
  pi_createdBy :: string
  pi_createdByID :: nat
  pi_dsid :: nat
  pi_dsxmlid :: string
  pi_assetURL :: string
  pi_parameters :: string
  pi_start_time :: time
  pi_OFQDN :: string

definition putInfoQuery :: "database \<Rightarrow> int \<Rightarrow> put_info list" where
  "putInfoQuery db jid =
     concat (map (\<lambda>j.
       concat (map (\<lambda>org.
         concat (map (\<lambda>u.
           map (\<lambda>d.
             \<lparr>pi_id = inv_id j, pi_createdBy = u_username u, pi_createdByID = inv_job_user j,
              pi_dsid = inv_job_deliveryservice j, pi_dsxmlid = ds_xml_id d,
              pi_assetURL = inv_asset_url j, pi_parameters = ttl_parameters (inv_ttl_hr j),
              pi_start_time = inv_start_time j, pi_OFQDN = origin_text org\<rparr>)
             (filter (\<lambda>d. ds_id d = inv_job_deliveryservice j) (deliveryservice db)))
           (filter (\<lambda>u. u_id u = inv_job_user j) (tm_user db))))
         (filter (\<lambda>org. o_deliveryservice org = inv_job_deliveryservice j \<and> o_is_primary org)
            (origin db))))
       (filter (\<lambda>j. int (inv_id j) = jid) (invalidation db)))"

text \<open>
  \<^verbatim>\<open>updateQuery\<close>: sets the three columns of the rows with id \<open>$4\<close> and returns the
  columns of each updated row. A NULL asset URL is refused by the column.
\<close>

definition updateQuery ::
  "database \<Rightarrow> string option \<Rightarrow> int \<Rightarrow> time \<Rightarrow> nat \<Rightarrow> dberror + InvalidationJob list \<times> database" where
  "updateQuery db asset_url ttl start jid =
     (case asset_url of None \<Rightarrow> Inl (ErrStore ''null value in column asset_url'')
      | Some url \<Rightarrow>
          let upd = (\<lambda>j. j\<lparr>inv_asset_url := url, inv_ttl_hr := ttl, inv_start_time := start\<rparr>);
              hit = filter (\<lambda>j. inv_id j = jid) (invalidation db)
          in case those (map (\<lambda>j. case returning db (upd j) of Inl e \<Rightarrow> None | Inr r \<Rightarrow> Some r) hit) of
               None \<Rightarrow> Inl (ErrStore ''more than one row returned by a subquery used as an expression'')
             | Some rs \<Rightarrow>
                 Inr (rs, db\<lparr>invalidation :=
                               map (\<lambda>j. if inv_id j = jid then upd j else j) (invalidation db)\<rparr>))"

text \<open>
  \<^verbatim>\<open>deleteQuery\<close>: removes the rows with id \<open>$1\<close> and returns the columns of each.
\<close>

definition deleteQuery :: "database \<Rightarrow> int \<Rightarrow> dberror + InvalidationJob list \<times> database" where
  "deleteQuery db jid =
     (let hit = filter (\<lambda>j. int (inv_id j) = jid) (invalidation db)
      in case those (map (\<lambda>j. case returning db j of Inl e \<Rightarrow> None | Inr r \<Rightarrow> Some r) hit) of
           None \<Rightarrow> Inl (ErrStore ''more than one row returned by a subquery used as an expression'')
         | Some rs \<Rightarrow>
             Inr (rs, db\<lparr>invalidation := filter (\<lambda>j. int (inv_id j) \<noteq> jid) (invalidation db)\<rparr>))"

text \<open>\<^verbatim>\<open>SELECT job_deliveryservice, job_user FROM invalidation WHERE id=$1\<close>\<close>

definition selectJobOwner :: "database \<Rightarrow> int \<Rightarrow> (nat \<times> nat) list" where
  "selectJobOwner db jid =
     map (\<lambda>j. (inv_job_deliveryservice j, inv_job_user j))
       (filter (\<lambda>j. int (inv_id j) = jid) (invalidation db))"

text \<open>
  \<^verbatim>\<open>revalQuery\<close>, with the column to set and the column of the delivery service that
  \<open>$1\<close> is compared with. A server is marked when its status is neither OFFLINE nor
  PRE_PROD, its profile has the \<^verbatim>\<open>location\<close> parameter of
  \<^verbatim>\<open>regex_revalidate.config\<close>, and its CDN is the one of the delivery service; a
  delivery service that does not exist gives NULL, which equals no CDN.
\<close>

datatype pending_column = upd_pending | reval_pending

datatype ds_key = ByID nat | ByXMLID string

definition set_pending :: "pending_column \<Rightarrow> server_row \<Rightarrow> server_row" where
  "set_pending col srv =
     (case col of upd_pending \<Rightarrow> srv\<lparr>srv_upd_pending := True\<rparr>
      | reval_pending \<Rightarrow> srv\<lparr>srv_reval_pending := True\<rparr>)"

definition ds_matches :: "ds_key \<Rightarrow> deliveryservice_row \<Rightarrow> bool" where
  "ds_matches k d = (case k of ByID i \<Rightarrow> ds_id d = i | ByXMLID x \<Rightarrow> ds_xml_id d = x)"

definition revalidating_server :: "database \<Rightarrow> nat \<Rightarrow> server_row \<Rightarrow> bool" where
  "revalidating_server db cdn srv \<longleftrightarrow>
     srv_status srv \<notin> set (map st_id
         (filter (\<lambda>st. st_name st \<in> {''OFFLINE'', ''PRE_PROD''}) (status db)))
     \<and> srv_profile srv \<in> set (map pp_profile
         (filter (\<lambda>pp. pp_parameter pp \<in> set (map p_id
              (filter (\<lambda>p. p_name p = ''location'' \<and> p_config_file p = ''regex_revalidate.config'')
                 (parameter db))))
            (profile_parameter db)))
     \<and> srv_cdn_id srv = cdn"

definition revalQuery :: "pending_column \<Rightarrow> ds_key \<Rightarrow> database \<Rightarrow> dberror + database" where
  "revalQuery col k db =
     (case scalar (map ds_cdn_id (filter (ds_matches k) (deliveryservice db))) of
        Inl e \<Rightarrow> Inl e
      | Inr None \<Rightarrow> Inr db
      | Inr (Some cdn) \<Rightarrow>
          Inr (db\<lparr>server := map (\<lambda>srv. if revalidating_server db cdn srv
                                       then set_pending col srv else srv) (server db)\<rparr>))"

text \<open>\<^verbatim>\<open>SELECT value FROM parameter WHERE name=$1 AND config_file=$2\<close>\<close>

definition selectParameterValue :: "database \<Rightarrow> string \<Rightarrow> string \<Rightarrow> string list" where
  "selectParameterValue db name config_file =
     map p_value (filter (\<lambda>p. p_name p = name \<and> p_config_file p = config_file) (parameter db))"

text \<open>
  \<^verbatim>\<open>SELECT tenant_id FROM deliveryservice where id=$1\<close> (or \<^verbatim>\<open>xml_id=$1\<close>) and
  \<^verbatim>\<open>SELECT tenant_id FROM tm_user where id=$1\<close> (or \<^verbatim>\<open>username=$1\<close>).
\<close>

definition selectDSTenant :: "database \<Rightarrow> ds_key \<Rightarrow> nat list" where
  "selectDSTenant db k = map ds_tenant_id (filter (ds_matches k) (deliveryservice db))"

datatype user_key = ByUserID nat | ByUsername string

definition user_matches :: "user_key \<Rightarrow> tm_user_row \<Rightarrow> bool" where
  "user_matches k u = (case k of ByUserID i \<Rightarrow> u_id u = i | ByUsername n \<Rightarrow> u_username u = n)"

definition selectUserTenant :: "database \<Rightarrow> user_key \<Rightarrow> nat list" where
  "selectUserTenant db k = map u_tenant_id (filter (user_matches k) (tm_user db))"

section \<open>The transaction of a request\<close>

text \<open>
  The statements that the handlers issue on the transaction of the request, their own
  and those of the collaborators they call with it.
\<close>

datatype stmt =
    ValidateInputStmt
  | SelectDSTenant
  | SelectUserTenant
  | TenantCheck
  | GetDSNameAndCDN
  | CheckCDNLock
  | InsertJob
  | PutInfo
  | UpdateJob
  | SelectJobOwner
  | DeleteJob
  | SelectUseReval
  | UpdateServers
  | ConflictScan
  | InsertLog
  | GetUserTenantIDList
  | SelectMaxLastUpdated string
  | SelectJobs string

text \<open>
  A transaction: the store as it was when the transaction began, the store as the
  statements so far have left it, the statements issued so far, in order, the
  statements on which the store or its driver fails in this request, and whether a
  statement has failed while the handler went on.
\<close>

record tx =
  begun :: database
  store :: database
  executed :: "stmt list"
  failing :: "stmt list"
  aborted :: bool

definition begin_tx :: "database \<Rightarrow> stmt list \<Rightarrow> tx" where
  "begin_tx db fs = \<lparr>begun = db, store = db, executed = [], failing = fs, aborted = False\<rparr>"

definition issued :: "stmt \<Rightarrow> tx \<Rightarrow> tx" where
  "issued st t = t\<lparr>executed := executed t @ [st]\<rparr>"

definition store_failure :: dberror where
  "store_failure = ErrStore ''store failure''"

text \<open>A statement that reads, and a statement that writes.\<close>

definition query :: "stmt \<Rightarrow> (database \<Rightarrow> dberror + 'a) \<Rightarrow> tx \<Rightarrow> (dberror + 'a) \<times> tx" where
  "query st q t =
     (if st \<in> set (failing t) then Inl store_failure else q (store t), issued st t)"

definition exec :: "stmt \<Rightarrow> (database \<Rightarrow> dberror + 'a \<times> database) \<Rightarrow> tx \<Rightarrow> (dberror + 'a) \<times> tx" where
  "exec st q t =
     (if st \<in> set (failing t) then (Inl store_failure, issued st t)
      else case q (store t) of
             Inl e \<Rightarrow> (Inl e, issued st t)
           | Inr (x, db') \<Rightarrow> (Inr x, (issued st t)\<lparr>store := db'\<rparr>))"

section \<open>Requests, collaborators and replies\<close>

text \<open>\<^verbatim>\<open>strings.HasPrefix\<close>, \<^verbatim>\<open>strings.TrimPrefix\<close>, \<^verbatim>\<open>strings.HasSuffix\<close>, \<^verbatim>\<open>strings.TrimSuffix\<close>\<close>

definition HasPrefix :: "string \<Rightarrow> string \<Rightarrow> bool" where
  "HasPrefix s pre \<longleftrightarrow> take (length pre) s = pre"

definition TrimPrefix :: "string \<Rightarrow> string \<Rightarrow> string" where
  "TrimPrefix s pre = (if HasPrefix s pre then drop (length pre) s else s)"

definition HasSuffix :: "string \<Rightarrow> string \<Rightarrow> bool" where
  "HasSuffix s suf \<longleftrightarrow> length suf \<le> length s \<and> drop (length s - length suf) s = suf"

definition TrimSuffix :: "string \<Rightarrow> string \<Rightarrow> string" where
  "TrimSuffix s suf = (if HasSuffix s suf then take (length s - length suf) s else s)"

text \<open>The acting user and the request's info, as \<^verbatim>\<open>api.NewInfo\<close> returns them.\<close>

record CurrentUser =
  UserName :: string
  UID :: nat
  TenantID :: nat

record APIInfo =
  Params :: "string \<rightharpoonup> string"
  User :: CurrentUser
  Version :: "(nat \<times> nat) option"

text \<open>\<^verbatim>\<open>inf.Params["id"]\<close>: a key that is absent reads as the empty string.\<close>

definition param :: "APIInfo \<Rightarrow> string \<Rightarrow> string" where
  "param info k = (case Params info k of None \<Rightarrow> [] | Some v \<Rightarrow> v)"

text \<open>
  \<^verbatim>\<open>tc.InvalidationJobInput\<close>, the payload of Create. The delivery service and the TTL are
  JSON scalars, a number or a string.
\<close>

record InvalidationJobInput =
  InDeliveryService :: "(int + string) option"
  Regex :: "string option"
  InStartTime :: "time option"
  TTL :: "(int + string) option"

datatype AlertLevel = ErrorLevel | WarnLevel | SuccessLevel

record Alert =
  Text :: string
  Level :: AlertLevel

text \<open>
  The functions and constants of other packages of the repository that the handlers
  use: the validation of the two payloads and their parsed fields (\<^verbatim>\<open>lib/go-tc\<close>), the
  tenancy check, the CDN lookups, the classification of a store error, the conflict scan,
  the change log, the constants of the \<^verbatim>\<open>api\<close> and \<^verbatim>\<open>tc\<close> packages. They are parameters
  of the model. \<open>text_to_int\<close> is the store's reading of a text parameter as a number;
  \<open>show_time\<close> is the printing of an instant by \<^verbatim>\<open>%v\<close>. A collaborator that returns
  an error returns \<open>Inl\<close>; the CDN lock check returns the status and the user error it
  refuses with. The change log is given the table \<^verbatim>\<open>log\<close>, the only one it writes.
\<close>

record collab =
  ValidateInput :: "database \<Rightarrow> InvalidationJobInput \<Rightarrow> string option"
  DSID :: "InvalidationJobInput \<Rightarrow> string + nat"
  InTTLHours :: "InvalidationJobInput \<Rightarrow> string + nat"
  ValidateJob :: "InvalidationJob \<Rightarrow> string option"
  TTLHours :: "InvalidationJob \<Rightarrow> nat"
  IsResourceAuthorizedToUserTx :: "nat \<Rightarrow> CurrentUser \<Rightarrow> database \<Rightarrow> dberror + bool"
  GetDSNameAndCDNFromID :: "database \<Rightarrow> nat \<Rightarrow> dberror + string"
  CheckIfCurrentUserCanModifyCDN :: "database \<Rightarrow> string \<Rightarrow> string \<Rightarrow> (nat \<times> string option) option"
  ParseDBError :: "dberror \<Rightarrow> nat \<times> string option"
  ValidateJobUniqueness :: "database \<Rightarrow> nat \<Rightarrow> time \<Rightarrow> string \<Rightarrow> nat \<Rightarrow> string list"
  CreateChangeLogRawTx :: "string \<Rightarrow> string \<Rightarrow> CurrentUser \<Rightarrow> (string \<times> string \<times> nat) list
                             \<Rightarrow> dberror + (string \<times> string \<times> nat) list"
  text_to_int :: "string \<Rightarrow> int option"
  show_time :: "time \<Rightarrow> string"
  ApiChange :: string
  Created :: string
  Updated :: string
  Deleted :: string
  UseRevalPendingParameterName :: string
  GlobalConfigFileName :: string

text \<open>A collaborator that is given the transaction reads the store as it is then.\<close>

definition consult :: "stmt \<Rightarrow> (database \<Rightarrow> 'a) \<Rightarrow> tx \<Rightarrow> 'a \<times> tx" where
  "consult st f t = (f (store t), issued st t)"

text \<open>
  What the client is sent: either the status and user error that the handler gave to
  \<^verbatim>\<open>api.HandleErr\<close>, or the status, alerts and job that the handler wrote itself.
  Headers and server-side logging are not part of the model.
\<close>

datatype reply =
    HandledErr nat "string option"
  | Written nat "Alert list" "InvalidationJob option"

fun status_of :: "reply \<Rightarrow> nat" where
  "status_of (HandledErr code _) = code"
| "status_of (Written code _ _) = code"

fun alerts_of :: "reply \<Rightarrow> Alert list" where
  "alerts_of (HandledErr _ _) = []"
| "alerts_of (Written _ as _) = as"

text \<open>
  The end of a request: what was sent, if anything, the store that the request leaves
  behind, the statements it issued, whether the handler panicked, and whether the
  transaction was rolled back.
\<close>

record outcome =
  Reply :: "reply option"
  Committed :: database
  Statements :: "stmt list"
  Panicked :: bool
  RolledBack :: bool

definition StatusOK :: nat where "StatusOK = 200"
definition StatusNotModified :: nat where "StatusNotModified = 304"
definition StatusBadRequest :: nat where "StatusBadRequest = 400"
definition StatusNotFound :: nat where "StatusNotFound = 404"
definition StatusMethodNotAllowed :: nat where "StatusMethodNotAllowed = 405"
definition StatusConflict :: nat where "StatusConflict = 409"
definition StatusInternalServerError :: nat where "StatusInternalServerError = 500"

text \<open>
  Modelled from the spec: \<^verbatim>\<open>api.HandleErr\<close> and the deferred \<^verbatim>\<open>inf.Close\<close> are
  not in the sources. By the spec a failure returns a classified error and leaves no partial
  state, the rollback of the transaction making the request all or nothing: \<open>HandleErr\<close>
  rolls the transaction back to the store it began with and sends the status with the user
  error. A handler that returns without it commits, which is \<open>Close\<close>; so does one that
  panics, since the deferred call still runs. By the spec any failure at any step aborts
  the whole transaction with no partial effect, and the mutation, the flag propagation
  and the audit append are never applied independently of each other: the commit of a
  transaction in which a statement has failed leaves the store as it was when the
  transaction began.
\<close>

definition HandleErr :: "tx \<Rightarrow> nat \<Rightarrow> string option \<Rightarrow> outcome" where
  "HandleErr t code userErr =
     \<lparr>Reply = Some (HandledErr code userErr), Committed = begun t,
      Statements = executed t, Panicked = False, RolledBack = True\<rparr>"

definition commit :: "tx \<Rightarrow> database" where
  "commit t = (if aborted t then begun t else store t)"

definition Close :: "tx \<Rightarrow> reply \<Rightarrow> outcome" where
  "Close t r =
     \<lparr>Reply = Some r, Committed = commit t, Statements = executed t, Panicked = False,
      RolledBack = aborted t\<rparr>"

definition panic :: "tx \<Rightarrow> reply option \<Rightarrow> outcome" where
  "panic t r =
     \<lparr>Reply = r, Committed = commit t, Statements = executed t, Panicked = True,
      RolledBack = aborted t\<rparr>"

section \<open>The flag propagator and the authorization checks\<close>

text \<open>
  \<^verbatim>\<open>setRevalFlags\<close>. The argument of the source is an \<^verbatim>\<open>interface{}\<close> that the callers
  fill with a \<^verbatim>\<open>uint\<close> or a \<^verbatim>\<open>string\<close>; these are the two constructors of \<open>ds_key\<close>, and the
  default case of the type switch has no value to reach it. The result is the error
  returned, if any.
\<close>

definition setRevalFlags :: "collab \<Rightarrow> ds_key \<Rightarrow> tx \<Rightarrow> dberror option \<times> tx" where
  "setRevalFlags C d t0 =
     (let (r, t) = query SelectUseReval
            (\<lambda>db. first_row (selectParameterValue db (UseRevalPendingParameterName C)
                                (GlobalConfigFileName C))) t0
      in case (case r of Inl e \<Rightarrow> (if e \<noteq> ErrNoRows then Inl e else Inr ''0'') | Inr v \<Rightarrow> Inr v) of
           Inl e \<Rightarrow> (Some e, t)
         | Inr useReval \<Rightarrow>
             let col = (if useReval = ''0'' then upd_pending else reval_pending);
                 (r, t) = exec UpdateServers
                            (\<lambda>db. case revalQuery col d db of Inl e \<Rightarrow> Inl e
                                  | Inr db' \<Rightarrow> Inr ((), db')) t
             in (case r of Inl e \<Rightarrow> (if e \<noteq> ErrNoRows then Some e else None)
                 | Inr _ \<Rightarrow> None, t))"

text \<open>
  The four authorization checks: the tenant of the delivery service or of the user is
  looked up, a target that does not exist answers \<open>False\<close> without an error, and the
  tenancy check decides otherwise.
\<close>

definition IsUserAuthorizedToModifyDSID :: "collab \<Rightarrow> APIInfo \<Rightarrow> nat \<Rightarrow> tx \<Rightarrow> (dberror + bool) \<times> tx" where
  "IsUserAuthorizedToModifyDSID C info ds t0 =
     (let (r, t) = query SelectDSTenant (\<lambda>db. first_row (selectDSTenant db (ByID ds))) t0
      in case r of
           Inl e \<Rightarrow> (if e = ErrNoRows then (Inr False, t) else (Inl e, t))
         | Inr tid \<Rightarrow> query TenantCheck (IsResourceAuthorizedToUserTx C tid (User info)) t)"

definition IsUserAuthorizedToModifyDSXMLID :: "collab \<Rightarrow> APIInfo \<Rightarrow> string \<Rightarrow> tx \<Rightarrow> (dberror + bool) \<times> tx" where
  "IsUserAuthorizedToModifyDSXMLID C info ds t0 =
     (let (r, t) = query SelectDSTenant (\<lambda>db. first_row (selectDSTenant db (ByXMLID ds))) t0
      in case r of
           Inl e \<Rightarrow> (if e = ErrNoRows then (Inr False, t) else (Inl e, t))
         | Inr tid \<Rightarrow> query TenantCheck (IsResourceAuthorizedToUserTx C tid (User info)) t)"

definition IsUserAuthorizedToModifyJobsMadeByUserID :: "collab \<Rightarrow> APIInfo \<Rightarrow> nat \<Rightarrow> tx \<Rightarrow> (dberror + bool) \<times> tx" where
  "IsUserAuthorizedToModifyJobsMadeByUserID C info u t0 =
     (let (r, t) = query SelectUserTenant (\<lambda>db. first_row (selectUserTenant db (ByUserID u))) t0
      in case r of
           Inl e \<Rightarrow> (if e = ErrNoRows then (Inr False, t) else (Inl e, t))
         | Inr tid \<Rightarrow> query TenantCheck (IsResourceAuthorizedToUserTx C tid (User info)) t)"

definition IsUserAuthorizedToModifyJobsMadeByUsername :: "collab \<Rightarrow> APIInfo \<Rightarrow> string \<Rightarrow> tx \<Rightarrow> (dberror + bool) \<times> tx" where
  "IsUserAuthorizedToModifyJobsMadeByUsername C info u t0 =
     (let (r, t) = query SelectUserTenant (\<lambda>db. first_row (selectUserTenant db (ByUsername u))) t0
      in case r of
           Inl e \<Rightarrow> (if e = ErrNoRows then (Inr False, t) else (Inl e, t))
         | Inr tid \<Rightarrow> query TenantCheck (IsResourceAuthorizedToUserTx C tid (User info)) t)"

section \<open>The handlers\<close>

text \<open>
  \<^verbatim>\<open>time.Hour\<close> in nanoseconds, the unit of the instants, and \<^verbatim>\<open>t.Add(time.Hour *
  time.Duration(ttl))\<close>. A \<^verbatim>\<open>time.Duration\<close> is an \<^verbatim>\<open>int64\<close>: the conversion of the TTL
  and the product wrap around at 64 bits, in two's complement. The end of a job only
  appears in the text of an alert.
\<close>

definition Hour :: int where
  "Hour = 3600000000000"

definition wrap_int64 :: "int \<Rightarrow> int" where
  "wrap_int64 x = (x + 2 ^ 63) mod 2 ^ 64 - 2 ^ 63"

definition Add_hours :: "time \<Rightarrow> nat \<Rightarrow> time" where
  "Add_hours start ttl = start + wrap_int64 (Hour * wrap_int64 (int ttl))"

definition apostrophe :: string where
  "apostrophe = [CHR 0x27]"

definition created_text :: "collab \<Rightarrow> string \<Rightarrow> time \<Rightarrow> nat \<Rightarrow> string" where
  "created_text C url start ttl =
     ''Invalidation request created for '' @ url @ '', start:'' @ show_time C start
       @ '' end '' @ show_time C (Add_hours start ttl)"

definition no_job_by_id :: "APIInfo \<Rightarrow> string" where
  "no_job_by_id info = ''No job by id '' @ apostrophe @ param info ''id'' @ apostrophe @ ''!''"

definition job_description :: "nat \<Rightarrow> string \<Rightarrow> string \<Rightarrow> string \<Rightarrow> string" where
  "job_description jid ds url ps =
     ''- ID: '' @ show_nat jid @ '' DS: '' @ ds @ '' URL: '' @ apostrophe @ url @ apostrophe
       @ '' Params: '' @ apostrophe @ ps @ apostrophe"

text \<open>
  The call of \<^verbatim>\<open>api.CreateChangeLogRawTx\<close>: the handlers do not look at what it returns,
  so an append that fails leaves the table as it was and the handler goes on, in a
  transaction that a statement has failed in. It is the only statement after whose
  failure a handler goes on: after any other one the handler ends with \<open>HandleErr\<close>.
\<close>

definition change_log :: "collab \<Rightarrow> string \<Rightarrow> CurrentUser \<Rightarrow> tx \<Rightarrow> tx" where
  "change_log C msg user t =
     (if InsertLog \<in> set (failing t) then (issued InsertLog t)\<lparr>aborted := True\<rparr>
      else case CreateChangeLogRawTx C (ApiChange C) msg user (log (store t)) of
             Inl e \<Rightarrow> (issued InsertLog t)\<lparr>aborted := True\<rparr>
           | Inr log' \<Rightarrow> (issued InsertLog t)\<lparr>store := (store t)\<lparr>log := log'\<rparr>\<rparr>)"

definition conflict_alerts :: "string list \<Rightarrow> Alert list" where
  "conflict_alerts conflicts = map (\<lambda>c. \<lparr>Text = c, Level = WarnLevel\<rparr>) conflicts"

subsection \<open>Create\<close>

text \<open>
  The end of \<^verbatim>\<open>Create\<close>, after the flags are set: the conflict scan, the alerts, the
  reply with status 200, and the change log after the reply.
\<close>

definition Create_respond ::
  "collab \<Rightarrow> APIInfo \<Rightarrow> time \<Rightarrow> InvalidationJob \<Rightarrow> nat \<Rightarrow> nat \<Rightarrow> tx \<Rightarrow> outcome" where
  "Create_respond C info start result dsid ttl t0 =
     (case AssetURL result of None \<Rightarrow> panic t0 None
      | Some url \<Rightarrow>
     (let (conflicts, t) = consult ConflictScan (\<lambda>db. ValidateJobUniqueness C db dsid start url ttl) t0;
          alerts = conflict_alerts conflicts
                     @ [\<lparr>Text = created_text C url start ttl, Level = SuccessLevel\<rparr>]
      in case Version info of None \<Rightarrow> HandleErr t StatusInternalServerError None
         | Some v \<Rightarrow>
        (case ID result of None \<Rightarrow> panic t None
         | Some jid \<Rightarrow>
        (let sent = Written StatusOK alerts (Some result);
             duplicate = (if conflicts \<noteq> [] then ''(duplicate) '' else [])
         in case DeliveryService result of None \<Rightarrow> panic t (Some sent)
            | Some ds \<Rightarrow>
           (case Parameters result of None \<Rightarrow> panic t (Some sent)
            | Some ps \<Rightarrow>
                Close (change_log C (Created C @ '' content invalidation job '' @ duplicate
                                      @ job_description jid ds url ps) (User info) t) sent)))))"

text \<open>The insert and the flag propagation of \<^verbatim>\<open>Create\<close>.\<close>

definition Create_insert ::
  "collab \<Rightarrow> APIInfo \<Rightarrow> InvalidationJobInput \<Rightarrow> nat \<Rightarrow> nat \<Rightarrow> time \<Rightarrow> tx \<Rightarrow> outcome" where
  "Create_insert C info job dsid ttl now t0 =
     (case Regex job of None \<Rightarrow> panic t0 None
      | Some regex \<Rightarrow>
     (case InStartTime job of None \<Rightarrow> panic t0 None
      | Some start \<Rightarrow>
     (let (r, t) = exec InsertJob
            (\<lambda>db. insertQuery db (int ttl) dsid regex start now (UID (User info)) dsid ''REFRESH'') t0
      in case r of
           Inl e \<Rightarrow> (let (code, userErr) = ParseDBError C e in HandleErr t code userErr)
         | Inr result \<Rightarrow>
             (let (err, t) = setRevalFlags C (ByID dsid) t
              in case err of Some e \<Rightarrow> HandleErr t StatusInternalServerError None
                 | None \<Rightarrow> Create_respond C info start result dsid ttl t))))"

text \<open>The authorization of \<^verbatim>\<open>Create\<close>: the tenancy of the delivery service, then the lock of its CDN.\<close>

definition Create_authorize ::
  "collab \<Rightarrow> APIInfo \<Rightarrow> InvalidationJobInput \<Rightarrow> nat \<Rightarrow> nat \<Rightarrow> time \<Rightarrow> tx \<Rightarrow> outcome" where
  "Create_authorize C info job dsid ttl now t0 =
     (let (r, t) = IsUserAuthorizedToModifyDSID C info dsid t0
      in case r of Inl e \<Rightarrow> HandleErr t StatusInternalServerError None
         | Inr ok \<Rightarrow>
             if \<not> ok then HandleErr t StatusNotFound (Some ''No such Delivery Service!'')
             else
               (let (r, t) = consult GetDSNameAndCDN (\<lambda>db. GetDSNameAndCDNFromID C db dsid) t
                in case r of Inl e \<Rightarrow> HandleErr t StatusInternalServerError None
                   | Inr cdnName \<Rightarrow>
                       (let (r, t) = consult CheckCDNLock
                              (\<lambda>db. CheckIfCurrentUserCanModifyCDN C db cdnName (UserName (User info))) t
                        in case r of Some (code, userErr) \<Rightarrow> HandleErr t code userErr
                           | None \<Rightarrow> Create_insert C info job dsid ttl now t)))"

text \<open>
  \<^verbatim>\<open>Create\<close>. \<open>newinfo\<close> is what \<^verbatim>\<open>api.NewInfo\<close> returned, an error with its status or the
  info; \<open>body\<close> is the decoded payload, or the decoder's error. A payload that fails its
  validation is answered by the handler itself, with status 400 and one error alert.
\<close>

definition Create ::
  "collab \<Rightarrow> (nat \<times> string option) + APIInfo \<Rightarrow> string + InvalidationJobInput \<Rightarrow> time \<Rightarrow> tx \<Rightarrow> outcome" where
  "Create C newinfo body now t0 =
     (case newinfo of Inl (code, userErr) \<Rightarrow> HandleErr t0 code userErr
      | Inr info \<Rightarrow>
     (case body of
        Inl err \<Rightarrow> HandleErr t0 StatusBadRequest (Some ''Unable to parse Invalidation Job'')
      | Inr job \<Rightarrow>
         (let (invalid, t) = consult ValidateInputStmt (\<lambda>db. ValidateInput C db job) t0
          in case invalid of
               Some err \<Rightarrow> Close t (Written StatusBadRequest [\<lparr>Text = err, Level = ErrorLevel\<rparr>] None)
             | None \<Rightarrow>
                 (case DSID C job of Inl e \<Rightarrow> HandleErr t StatusInternalServerError None
                  | Inr dsid \<Rightarrow>
                 (case InTTLHours C job of Inl e \<Rightarrow> HandleErr t StatusInternalServerError None
                  | Inr ttl \<Rightarrow> Create_authorize C info job dsid ttl now t)))))"

subsection \<open>Update\<close>

text \<open>
  The end of \<^verbatim>\<open>Update\<close>, after the flags are set. \<open>job\<close> is the row that the update
  returned, \<open>input\<close> the payload; the TTL of the alert and of the conflict scan is the one
  parsed from the payload.
\<close>

definition Update_respond ::
  "collab \<Rightarrow> APIInfo \<Rightarrow> InvalidationJob \<Rightarrow> InvalidationJob \<Rightarrow> string \<Rightarrow> time \<Rightarrow> nat \<Rightarrow> string \<Rightarrow> tx \<Rightarrow> outcome" where
  "Update_respond C info job input url start dsid ds t0 =
     (let ttlHours = TTLHours C input;
          (conflicts, t) = consult ConflictScan
             (\<lambda>db. ValidateJobUniqueness C db dsid start url ttlHours) t0
      in case AssetURL job of None \<Rightarrow> panic t None
         | Some job_url \<Rightarrow>
        (case StartTime job of None \<Rightarrow> panic t None
         | Some job_start \<Rightarrow>
        (let alerts = conflict_alerts conflicts
                        @ [\<lparr>Text = created_text C job_url job_start ttlHours, Level = SuccessLevel\<rparr>];
             sent = Written StatusOK alerts (Some job)
         in case ID job of None \<Rightarrow> panic t (Some sent)
            | Some jid \<Rightarrow>
           (case Parameters job of None \<Rightarrow> panic t (Some sent)
            | Some ps \<Rightarrow>
                Close (change_log C (Updated C @ '' content invalidation job ''
                                      @ job_description jid ds job_url ps) (User info) t) sent))))"

text \<open>
  The CDN lock, the update and the flag propagation of \<^verbatim>\<open>Update\<close>. The TTL given to the
  statement is the payload's \<^verbatim>\<open>parameters\<close> without its prefix \<^verbatim>\<open>TTL:\<close> and its suffix
  \<^verbatim>\<open>h\<close>, a text that the store reads as a number.
\<close>

definition Update_mutate ::
  "collab \<Rightarrow> APIInfo \<Rightarrow> put_info \<Rightarrow> InvalidationJob \<Rightarrow> string \<Rightarrow> tx \<Rightarrow> outcome" where
  "Update_mutate C info stored input url t0 =
     (let (r, t) = consult GetDSNameAndCDN (\<lambda>db. GetDSNameAndCDNFromID C db (pi_dsid stored)) t0
      in case r of Inl e \<Rightarrow> HandleErr t StatusInternalServerError None
         | Inr cdnName \<Rightarrow>
     (let (r, t) = consult CheckCDNLock
            (\<lambda>db. CheckIfCurrentUserCanModifyCDN C db cdnName (UserName (User info))) t
      in case r of Some (code, userErr) \<Rightarrow> HandleErr t code userErr
         | None \<Rightarrow>
     (case Parameters input of None \<Rightarrow> panic t None
      | Some ps \<Rightarrow>
     (case StartTime input of None \<Rightarrow> panic t None
      | Some start \<Rightarrow>
     (let (r, t) = exec UpdateJob
            (\<lambda>db. case text_to_int C (TrimSuffix (TrimPrefix ps ''TTL:'') ''h'') of
                     None \<Rightarrow> Inl (ErrStore ''invalid input syntax for type bigint'')
                   | Some ttl \<Rightarrow>
                       (case updateQuery db (AssetURL input) ttl start (pi_id stored) of
                          Inl e \<Rightarrow> Inl e
                        | Inr (rows, db') \<Rightarrow>
                            (case rows of [] \<Rightarrow> Inl ErrNoRows | job # _ \<Rightarrow> Inr (job, db')))) t
      in case r of Inl e \<Rightarrow> HandleErr t StatusInternalServerError None
         | Inr job \<Rightarrow>
        (case DeliveryService job of None \<Rightarrow> panic t None
         | Some ds \<Rightarrow>
        (let (err, t) = setRevalFlags C (ByXMLID ds) t
         in case err of Some e \<Rightarrow> HandleErr t StatusInternalServerError None
            | None \<Rightarrow> Update_respond C info job input url start (pi_dsid stored) ds t)))))))"

text \<open>
  The checks of the payload in \<^verbatim>\<open>Update\<close>, in the order of the source: it is decoded,
  validated, its asset URL must start with the origin of the delivery service, the stored
  job must not have started, and its delivery service, creator and id must be the stored
  ones.
\<close>

definition Update_validate ::
  "collab \<Rightarrow> APIInfo \<Rightarrow> put_info \<Rightarrow> string + InvalidationJob \<Rightarrow> time \<Rightarrow> tx \<Rightarrow> outcome" where
  "Update_validate C info stored body now t =
     (case body of
        Inl err \<Rightarrow> HandleErr t StatusBadRequest (Some (''Unable to parse input: '' @ err))
      | Inr input \<Rightarrow>
     (case ValidateJob C input of Some err \<Rightarrow> HandleErr t StatusBadRequest (Some err)
      | None \<Rightarrow>
     (case AssetURL input of None \<Rightarrow> panic t None
      | Some url \<Rightarrow>
        if \<not> HasPrefix url (pi_OFQDN stored)
        then HandleErr t StatusBadRequest
               (Some (''Cannot set asset URL that does not start with Delivery Service origin URL: ''
                        @ pi_OFQDN stored))
        else if pi_start_time stored < now
        then HandleErr t StatusMethodNotAllowed (Some ''Cannot modify a job that has already started!'')
        else
     (case DeliveryService input of None \<Rightarrow> panic t None
      | Some ds \<Rightarrow>
        if pi_dsxmlid stored \<noteq> ds
        then HandleErr t StatusConflict
               (Some (''Cannot change '' @ apostrophe @ ''deliveryService'' @ apostrophe
                        @ '' of existing invalidation job!''))
        else
     (case CreatedBy input of None \<Rightarrow> panic t None
      | Some createdBy \<Rightarrow>
        if pi_createdBy stored \<noteq> createdBy
        then HandleErr t StatusConflict
               (Some (''Cannot change '' @ apostrophe @ ''createdBy'' @ apostrophe
                        @ '' of existing invalidation jobs!''))
        else
     (case ID input of None \<Rightarrow> panic t None
      | Some jid \<Rightarrow>
        if pi_id stored \<noteq> jid
        then HandleErr t StatusConflict
               (Some (''Cannot change an invalidation job '' @ apostrophe @ ''id'' @ apostrophe @ ''!''))
        else Update_mutate C info stored input url t))))))"

text \<open>The two tenancy checks of \<^verbatim>\<open>Update\<close>: the delivery service of the job, then its creator.\<close>

definition Update_authorize ::
  "collab \<Rightarrow> APIInfo \<Rightarrow> put_info \<Rightarrow> string + InvalidationJob \<Rightarrow> time \<Rightarrow> tx \<Rightarrow> outcome" where
  "Update_authorize C info stored body now t0 =
     (let (r, t) = IsUserAuthorizedToModifyDSID C info (pi_dsid stored) t0
      in case r of Inl e \<Rightarrow> HandleErr t StatusInternalServerError None
         | Inr ok \<Rightarrow>
             if \<not> ok then HandleErr t StatusNotFound (Some ''No such Delivery Service!'')
             else
               (let (r, t) = IsUserAuthorizedToModifyJobsMadeByUsername C info (pi_createdBy stored) t
                in case r of Inl e \<Rightarrow> HandleErr t StatusInternalServerError None
                   | Inr ok \<Rightarrow>
                       if \<not> ok then HandleErr t StatusNotFound (Some (no_job_by_id info))
                       else Update_validate C info stored body now t))"

text \<open>
  \<^verbatim>\<open>Update\<close>. The id of the job is the request parameter \<^verbatim>\<open>id\<close>, a text that the store
  reads as a number; \<open>now\<close> is \<^verbatim>\<open>time.Now()\<close>.
\<close>

definition Update ::
  "collab \<Rightarrow> (nat \<times> string option) + APIInfo \<Rightarrow> string + InvalidationJob \<Rightarrow> time \<Rightarrow> tx \<Rightarrow> outcome" where
  "Update C newinfo body now t0 =
     (case newinfo of Inl (code, userErr) \<Rightarrow> HandleErr t0 code userErr
      | Inr info \<Rightarrow>
     (let (r, t) = query PutInfo
            (\<lambda>db. case text_to_int C (param info ''id'') of
                     None \<Rightarrow> Inl (ErrStore ''invalid input syntax for type bigint'')
                   | Some jid \<Rightarrow> first_row (putInfoQuery db jid)) t0
      in case r of
           Inl e \<Rightarrow> if e = ErrNoRows then HandleErr t StatusNotFound (Some (no_job_by_id info))
                     else HandleErr t StatusInternalServerError None
         | Inr stored \<Rightarrow> Update_authorize C info stored body now t))"

subsection \<open>Delete\<close>

text \<open>The reply of \<^verbatim>\<open>Delete\<close>, with the deleted job, and the change log after it.\<close>

definition Delete_respond :: "collab \<Rightarrow> APIInfo \<Rightarrow> InvalidationJob \<Rightarrow> tx \<Rightarrow> outcome" where
  "Delete_respond C info result t =
     (let sent = Written StatusOK
                   [\<lparr>Text = ''Content invalidation job was deleted'', Level = SuccessLevel\<rparr>]
                   (Some result)
      in case ID result of None \<Rightarrow> panic t (Some sent)
         | Some jid \<Rightarrow>
        (case DeliveryService result of None \<Rightarrow> panic t (Some sent)
         | Some ds \<Rightarrow>
        (case AssetURL result of None \<Rightarrow> panic t (Some sent)
         | Some url \<Rightarrow>
        (case Parameters result of None \<Rightarrow> panic t (Some sent)
         | Some ps \<Rightarrow>
             Close (change_log C (Deleted C @ '' content invalidation job ''
                                   @ job_description jid ds url ps) (User info) t) sent))))"

text \<open>The CDN lock, the delete and the flag propagation of \<^verbatim>\<open>Delete\<close>.\<close>

definition Delete_mutate :: "collab \<Rightarrow> APIInfo \<Rightarrow> nat \<Rightarrow> tx \<Rightarrow> outcome" where
  "Delete_mutate C info dsid t0 =
     (let (r, t) = consult GetDSNameAndCDN (\<lambda>db. GetDSNameAndCDNFromID C db dsid) t0
      in case r of Inl e \<Rightarrow> HandleErr t StatusInternalServerError None
         | Inr cdnName \<Rightarrow>
     (let (r, t) = consult CheckCDNLock
            (\<lambda>db. CheckIfCurrentUserCanModifyCDN C db cdnName (UserName (User info))) t
      in case r of Some (code, userErr) \<Rightarrow> HandleErr t code userErr
         | None \<Rightarrow>
     (let (r, t) = exec DeleteJob
            (\<lambda>db. case text_to_int C (param info ''id'') of
                     None \<Rightarrow> Inl (ErrStore ''invalid input syntax for type bigint'')
                   | Some jid \<Rightarrow>
                       (case deleteQuery db jid of Inl e \<Rightarrow> Inl e
                        | Inr (rows, db') \<Rightarrow>
                            (case rows of [] \<Rightarrow> Inl ErrNoRows | job # _ \<Rightarrow> Inr (job, db')))) t
      in case r of Inl e \<Rightarrow> HandleErr t StatusInternalServerError None
         | Inr result \<Rightarrow>
        (let (err, t) = setRevalFlags C (ByID dsid) t
         in case err of Some e \<Rightarrow> HandleErr t StatusInternalServerError None
            | None \<Rightarrow> Delete_respond C info result t))))"

text \<open>
  \<^verbatim>\<open>Delete\<close>: the owner of the job is looked up, then the two tenancy checks, the
  delivery service of the job and its creator.
\<close>

definition Delete :: "collab \<Rightarrow> (nat \<times> string option) + APIInfo \<Rightarrow> tx \<Rightarrow> outcome" where
  "Delete C newinfo t0 =
     (case newinfo of Inl (code, userErr) \<Rightarrow> HandleErr t0 code userErr
      | Inr info \<Rightarrow>
     (let (r, t) = query SelectJobOwner
            (\<lambda>db. case text_to_int C (param info ''id'') of
                     None \<Rightarrow> Inl (ErrStore ''invalid input syntax for type bigint'')
                   | Some jid \<Rightarrow> first_row (selectJobOwner db jid)) t0
      in case r of
           Inl e \<Rightarrow> if e = ErrNoRows then HandleErr t StatusNotFound (Some (no_job_by_id info))
                     else HandleErr t StatusInternalServerError None
         | Inr (dsid, createdBy) \<Rightarrow>
     (let (r, t) = IsUserAuthorizedToModifyDSID C info dsid t
      in case r of Inl e \<Rightarrow> HandleErr t StatusInternalServerError None
         | Inr ok \<Rightarrow>
             if \<not> ok then HandleErr t StatusNotFound (Some ''No such Delivery Service!'')
             else
     (let (r, t) = IsUserAuthorizedToModifyJobsMadeByUserID C info createdBy t
      in case r of Inl e \<Rightarrow> HandleErr t StatusInternalServerError None
         | Inr ok \<Rightarrow>
             if \<not> ok then HandleErr t StatusNotFound (Some (no_job_by_id info))
             else Delete_mutate C info dsid t))))"

section \<open>Read\<close>

definition newline :: string where "newline = [CHR 0x0A]"
definition tab :: string where "tab = [CHR 0x09]"
definition spaces :: "nat \<Rightarrow> string" where "spaces n = replicate n CHR '' ''"

text \<open>The texts of the queries of \<^verbatim>\<open>Read\<close>, character by character.\<close>

definition readQuery :: string where
  "readQuery =
     newline @ ''SELECT invalidation.id,'' @ newline @ spaces 8 @ apostrophe @ ''PURGE'' @
       apostrophe @ '' AS keyword,'' @ newline @ tab @ tab @ ''ttl_hr,'' @ newline @ tab @
       tab @ ''asset_url,'' @ newline @ tab @ tab @ ''start_time,'' @ newline @ tab @ tab @
       ''u.username as createdBy,'' @ newline @ tab @ tab @ ''ds.xml_id as dsId'' @ newline @
       ''FROM invalidation'' @ newline @ ''JOIN tm_user u ON invalidation.job_user = u.id'' @
       newline @ ''JOIN deliveryservice ds ON invalidation.job_deliveryservice = ds.id'' @
       newline"

definition selectMaxLastUpdatedQuery :: "string \<Rightarrow> string" where
  "selectMaxLastUpdatedQuery where_clause =
     ''SELECT max(t) from ('' @ newline @ tab @ tab @
       ''SELECT max(job.last_updated) as t FROM job'' @ newline @ tab @
       ''JOIN tm_user u ON job.job_user = u.id'' @ newline @ tab @
       ''JOIN deliveryservice ds  ON job.job_deliveryservice = ds.id ''
       @ where_clause @
       '' UNION ALL'' @ newline @ tab @
         ''select max(last_updated) as t from last_deleted l where l.table_name='' @
         apostrophe @ ''job'' @ apostrophe @ '') as res''"

definition cdn_predicate :: string where
  "cdn_predicate = '' AND ds.cdn_id = (SELECT id FROM cdn WHERE name = :cdn) ''"

definition maxDays_predicate :: string where
  "maxDays_predicate =
     '' AND job.start_time >= NOW() - CAST('' @ newline @ spaces 55 @ ''(SELECT COALESCE('' @
       newline @ spaces 71 @ ''(SELECT value'' @ newline @ spaces 72 @ ''FROM parameter'' @
       newline @ spaces 72 @ ''WHERE name = '' @ apostrophe @ ''maxRevalDurationDays'' @
       apostrophe @ newline @ spaces 72 @ ''AND config_file = '' @ apostrophe @
       ''regex_revalidate.config'' @ apostrophe @ newline @ spaces 72 @ ''LIMIT 1),'' @
       newline @ spaces 71 @ apostrophe @ ''90'' @ apostrophe @ ''))'' @ newline @ spaces 55 @
       ''|| '' @ apostrophe @ '' days'' @ apostrophe @ '' AS INTERVAL) ''"

definition tenants_predicate :: string where
  "tenants_predicate = '' ds.tenant_id = ANY(:tenants) ''"

text \<open>The filters that a caller may name, with the column and the check of each.\<close>

datatype checker = IsInt

record WhereColumnInfo =
  Column :: string
  Checker :: "checker option"

definition queryParamsToSQLCols :: "(string \<times> WhereColumnInfo) list" where
  "queryParamsToSQLCols =
     [(''id'', \<lparr>Column = ''invalidation.id'', Checker = Some IsInt\<rparr>),
      (''keyword'', \<lparr>Column = ''keyword'', Checker = None\<rparr>),
      (''assetUrl'', \<lparr>Column = ''asset_url'', Checker = None\<rparr>),
      (''startTime'', \<lparr>Column = ''start_time'', Checker = None\<rparr>),
      (''userId'', \<lparr>Column = ''job_user'', Checker = Some IsInt\<rparr>),
      (''createdBy'', \<lparr>Column =
          ''(SELECT tm_user.username FROM tm_user WHERE tm_user.id=invalidation.job_user)'',
          Checker = None\<rparr>),
      (''deliveryService'', \<lparr>Column =
          ''(SELECT deliveryservice.xml_id FROM deliveryservice WHERE deliveryservice.id=invalidation.job_deliveryservice)'',
          Checker = None\<rparr>),
      (''dsId'', \<lparr>Column = ''invalidation.job_deliveryservice'', Checker = Some IsInt\<rparr>)]"

text \<open>The values bound to the names of a query: a text of the caller, or an array of tenants.\<close>

datatype qvalue = QText string | QArray "nat list"

text \<open>
  The collaborators of \<^verbatim>\<open>Read\<close>, parameters of the model: the builder of the caller's
  filters, ordering and pagination with its constant \<^verbatim>\<open>BaseWhere\<close>, the joining of its
  errors, the tenants that a user may see, and the store running a query whose text is
  built at run time: the one of the maximum, which gives one instant or NULL, and the
  one of the rows, each of which scans into a job or fails to scan, with the error that
  may end the iteration.
\<close>

record engine =
  BuildWhereAndOrderByAndPagination ::
    "(string \<rightharpoonup> string) \<Rightarrow> (string \<times> WhereColumnInfo) list
       \<Rightarrow> string \<times> string \<times> string \<times> (string \<rightharpoonup> qvalue) \<times> string list"
  BaseWhere :: string
  JoinErrs :: "string list \<Rightarrow> string"
  GetUserTenantIDListTx :: "database \<Rightarrow> nat \<Rightarrow> dberror + nat list"
  MaxQuery :: "database \<Rightarrow> string \<Rightarrow> (string \<rightharpoonup> qvalue) \<Rightarrow> dberror + time option"
  NamedQuery :: "database \<Rightarrow> string \<Rightarrow> (string \<rightharpoonup> qvalue)
                   \<Rightarrow> dberror + (dberror + InvalidationJob) list \<times> dberror option"

text \<open>The zero value of \<^verbatim>\<open>time.Time\<close> is the origin of the time line.\<close>

definition zero_time :: time where
  "zero_time = 0"

text \<open>
  Modelled from the spec: \<^verbatim>\<open>ims.TryIfModifiedSinceQuery\<close> is not in the sources. By the
  spec the engine computes the maximum last-modified timestamp, here by running the query
  it is given, and when the caller's freshness cutoff is at or after this maximum the read
  is not modified. \<open>h\<close> is the cutoff that the headers of the request carry, if any. The
  result is whether the rows have to be read, with the maximum; without a cutoff, or
  without a maximum, they have to.
\<close>

definition TryIfModifiedSinceQuery ::
  "engine \<Rightarrow> time option \<Rightarrow> (string \<rightharpoonup> qvalue) \<Rightarrow> string \<Rightarrow> tx \<Rightarrow> (bool \<times> time) \<times> tx" where
  "TryIfModifiedSinceQuery E h queryValues q t0 =
     (case h of None \<Rightarrow> ((True, zero_time), t0)
      | Some cutoff \<Rightarrow>
          (let (r, t) = query (SelectMaxLastUpdated q) (\<lambda>db. MaxQuery E db q queryValues) t0
           in case r of Inl e \<Rightarrow> ((True, zero_time), t)
              | Inr None \<Rightarrow> ((True, zero_time), t)
              | Inr (Some m) \<Rightarrow> ((\<not> m \<le> cutoff, m), t)))"

text \<open>
  The loop over the rows: a row that does not scan ends the read with an error; the TTL
  read into \<^verbatim>\<open>Parameters\<close> is dereferenced and wrapped into \<^verbatim>\<open>TTL:%sh\<close>.
\<close>

datatype 'a scanned = ScanPanic | ScanError dberror | Scanned 'a

fun scan_rows :: "(dberror + InvalidationJob) list \<Rightarrow> InvalidationJob list scanned" where
  "scan_rows [] = Scanned []"
| "scan_rows (Inl e # rows) = ScanError e"
| "scan_rows (Inr j # rows) =
     (case Parameters j of None \<Rightarrow> ScanPanic
      | Some ttl \<Rightarrow>
          (case scan_rows rows of
             Scanned js \<Rightarrow> Scanned (j\<lparr>Parameters := Some (''TTL:'' @ ttl @ ''h'')\<rparr> # js)
           | ScanError e \<Rightarrow> ScanError e
           | ScanPanic \<Rightarrow> ScanPanic))"

text \<open>
  What \<^verbatim>\<open>Read\<close> returns: the jobs (or nil), the user error, the system error with its
  cause, the status and the maximum; or a panic.
\<close>

datatype read_return =
    ReadPanic
  | ReadReturn "InvalidationJob list option" "string option" "(string \<times> dberror) option" nat "time option"

text \<open>
  The where clause of \<^verbatim>\<open>Read\<close>, from the request parameters and the clause of the
  caller's filters: the tenants predicate, then the recency window when the request has
  the parameter \<^verbatim>\<open>maxRevalDurationDays\<close>, then the CDN predicate when it has \<^verbatim>\<open>cdn\<close>.
\<close>

definition Read_where :: "engine \<Rightarrow> (string \<rightharpoonup> string) \<Rightarrow> string \<Rightarrow> string" where
  "Read_where E params where0 =
     (let cdn = (case params ''cdn'' of Some cdnName \<Rightarrow> cdn_predicate | None \<Rightarrow> []);
          maxDays = (case params ''maxRevalDurationDays'' of Some _ \<Rightarrow> maxDays_predicate | None \<Rightarrow> [])
      in if length where0 > 0 then where0 @ '' AND'' @ tenants_predicate @ maxDays @ cdn
         else BaseWhere E @ tenants_predicate @ maxDays @ cdn)"

definition Read :: "engine \<Rightarrow> APIInfo \<Rightarrow> time option \<Rightarrow> bool \<Rightarrow> tx \<Rightarrow> read_return \<times> tx" where
  "Read E info h useIMS t0 =
     (let (where0, orderBy, pagination, queryValues, errs) =
            BuildWhereAndOrderByAndPagination E (Params info) queryParamsToSQLCols
      in if length errs > 0
         then (ReadReturn None (Some (JoinErrs E errs)) None StatusBadRequest None, t0)
         else
     (let (r, t) = query GetUserTenantIDList
            (\<lambda>db. GetUserTenantIDListTx E db (TenantID (User info))) t0
      in case r of
           Inl e \<Rightarrow> (ReadReturn None None (Some (''getting accessible tenants for user'', e))
                        StatusInternalServerError None, t)
         | Inr accessibleTenants \<Rightarrow>
     (let queryValues = (case Params info ''cdn'' of
                           Some cdnName \<Rightarrow> queryValues(''cdn'' \<mapsto> QText cdnName)
                         | None \<Rightarrow> queryValues);
          where_clause = Read_where E (Params info) where0;
          queryValues = queryValues(''tenants'' \<mapsto> QArray accessibleTenants);
          ((runSecond, maxTime), t) =
             (if useIMS
              then TryIfModifiedSinceQuery E h queryValues (selectMaxLastUpdatedQuery where_clause) t
              else ((True, zero_time), t))
      in if useIMS \<and> \<not> runSecond
         then (ReadReturn (Some []) None None StatusNotModified (Some maxTime), t)
         else
     (let q = readQuery @ where_clause @ orderBy @ pagination;
          (r, t) = query (SelectJobs q) (\<lambda>db. NamedQuery E db q queryValues) t
      in case r of
           Inl e \<Rightarrow> (ReadReturn None None (Some (''querying'', e)) StatusInternalServerError None, t)
         | Inr (rows, rows_err) \<Rightarrow>
             (case scan_rows rows of
                ScanPanic \<Rightarrow> (ReadPanic, t)
              | ScanError e \<Rightarrow>
                  (ReadReturn None None (Some (''parsing db response'', e))
                     StatusInternalServerError None, t)
              | Scanned returnable \<Rightarrow>
                  (case rows_err of
                     Some e \<Rightarrow> (ReadReturn None None (Some (''Parsing db responses'', e))
                                  StatusInternalServerError None, t)
                   | None \<Rightarrow> (ReadReturn (Some returnable) None None StatusOK (Some maxTime), t)))))))"

section \<open>Collaborators modelled from the spec\<close>

text \<open>
  Modelled from the spec: \<^verbatim>\<open>tenant.IsResourceAuthorizedToUserTx\<close> is not in the sources.
  By the spec tenants form a tree, and authorization requires the acting user's tenant to
  be an ancestor-or-self of the resource's tenant. The walk from the resource's tenant up
  through the parents takes at most as many steps as there are tenants.
\<close>

definition parent_of :: "tenant_row list \<Rightarrow> nat \<Rightarrow> nat option" where
  "parent_of ts b = (case filter (\<lambda>t. t_id t = b) ts of [] \<Rightarrow> None | t # _ \<Rightarrow> t_parent_id t)"

fun ancestor_or_self :: "tenant_row list \<Rightarrow> nat \<Rightarrow> nat \<Rightarrow> nat \<Rightarrow> bool" where
  "ancestor_or_self ts 0 a b = (a = b)"
| "ancestor_or_self ts (Suc n) a b =
     (a = b \<or> (case parent_of ts b of None \<Rightarrow> False | Some p \<Rightarrow> ancestor_or_self ts n a p))"

definition IsResourceAuthorizedToUserTx_spec :: "nat \<Rightarrow> CurrentUser \<Rightarrow> database \<Rightarrow> dberror + bool" where
  "IsResourceAuthorizedToUserTx_spec resourceTenantID user db =
     Inr (ancestor_or_self (tenant db) (length (tenant db)) (TenantID user) resourceTenantID)"

text \<open>
  Modelled from the spec: \<^verbatim>\<open>tc.ValidateJobUniqueness\<close> is not in the sources. By the spec
  the candidate has the interval from its start time to its start time plus its TTL in
  hours, the end excluded; the scan goes over the jobs of the same delivery service whose
  asset URL is a prefix of the candidate's or has it as a prefix, and whose interval
  intersects the candidate's; every match is emitted as a warning string. The text of
  the warning for a matching job is a parameter.
\<close>

definition intervals_intersect :: "time \<Rightarrow> time \<Rightarrow> time \<Rightarrow> time \<Rightarrow> bool" where
  "intervals_intersect s1 e1 s2 e2 \<longleftrightarrow> max s1 s2 < min e1 e2"

definition path_overlap :: "string \<Rightarrow> string \<Rightarrow> bool" where
  "path_overlap a b \<longleftrightarrow> HasPrefix a b \<or> HasPrefix b a"

definition conflicting :: "nat \<Rightarrow> time \<Rightarrow> string \<Rightarrow> nat \<Rightarrow> invalidation_row \<Rightarrow> bool" where
  "conflicting dsid start url ttl j \<longleftrightarrow>
     inv_job_deliveryservice j = dsid
     \<and> path_overlap (inv_asset_url j) url
     \<and> intervals_intersect start (start + Hour * int ttl)
          (inv_start_time j) (inv_start_time j + Hour * inv_ttl_hr j)"

definition ValidateJobUniqueness_spec ::
  "(invalidation_row \<Rightarrow> string) \<Rightarrow> database \<Rightarrow> nat \<Rightarrow> time \<Rightarrow> string \<Rightarrow> nat \<Rightarrow> string list" where
  "ValidateJobUniqueness_spec warning db dsid start url ttl =
     map warning (filter (conflicting dsid start url ttl) (invalidation db))"

section \<open>A small store and its collaborators\<close>

text \<open>
  One delivery service with its primary origin, under tenant 2 of a tree of three
  tenants; two users; one server that watches the revalidation file.
\<close>

definition db0 :: database where
  "db0 =
     \<lparr>origin = [\<lparr>o_deliveryservice = 5, o_is_primary = True, o_protocol = ''http'',
                  o_fqdn = ''origin.example'', o_port = None\<rparr>],
      deliveryservice = [\<lparr>ds_id = 5, ds_xml_id = ''ds5'', ds_tenant_id = 2, ds_cdn_id = 1\<rparr>],
      tm_user = [\<lparr>u_id = 7, u_username = ''ann'', u_tenant_id = 2\<rparr>,
                 \<lparr>u_id = 8, u_username = ''bob'', u_tenant_id = 3\<rparr>],
      tenant = [\<lparr>t_id = 1, t_parent_id = None\<rparr>, \<lparr>t_id = 2, t_parent_id = Some 1\<rparr>,
                \<lparr>t_id = 3, t_parent_id = Some 1\<rparr>],
      invalidation = [],
      invalidation_id_seq = 0,
      server = [\<lparr>srv_id = 1, srv_status = 1, srv_profile = 1, srv_cdn_id = 1,
                  srv_upd_pending = False, srv_reval_pending = False\<rparr>],
      status = [\<lparr>st_id = 1, st_name = ''ONLINE''\<rparr>, \<lparr>st_id = 2, st_name = ''OFFLINE''\<rparr>],
      parameter = [\<lparr>p_id = 1, p_name = ''location'', p_config_file = ''regex_revalidate.config'',
                     p_value = ''/etc/trafficserver''\<rparr>],
      profile_parameter = [\<lparr>pp_profile = 1, pp_parameter = 1\<rparr>],
      log = []\<rparr>"

text \<open>Decimal digits read as a number, the reading of a text by the small store.\<close>

fun decimal :: "string \<Rightarrow> nat \<Rightarrow> nat option" where
  "decimal [] acc = Some acc"
| "decimal (c # cs) acc =
     (if c \<in> set ''0123456789''
      then decimal cs (10 * acc + (of_char c - 48))
      else None)"

definition read_int :: "string \<Rightarrow> int option" where
  "read_int s = (if s = [] then None else map_option int (decimal s 0))"

definition warning0 :: "invalidation_row \<Rightarrow> string" where
  "warning0 j = ''overlaps job '' @ show_nat (inv_id j)"

definition C0 :: collab where
  "C0 =
     \<lparr>ValidateInput = (\<lambda>db job. None),
      DSID = (\<lambda>job. case InDeliveryService job of Some (Inl i) \<Rightarrow> Inr (nat i)
                      | _ \<Rightarrow> Inl ''no delivery service''),
      InTTLHours = (\<lambda>job. case TTL job of Some (Inl i) \<Rightarrow> Inr (nat i) | _ \<Rightarrow> Inl ''no ttl''),
      ValidateJob = (\<lambda>job. None),
      TTLHours = (\<lambda>job. case Parameters job of None \<Rightarrow> 0
                    | Some ps \<Rightarrow> (case decimal (TrimSuffix (TrimPrefix ps ''TTL:'') ''h'') 0 of
                                    None \<Rightarrow> 0 | Some n \<Rightarrow> n)),
      IsResourceAuthorizedToUserTx = IsResourceAuthorizedToUserTx_spec,
      GetDSNameAndCDNFromID = (\<lambda>db dsid. Inr ''cdn1''),
      CheckIfCurrentUserCanModifyCDN = (\<lambda>db cdn user. None),
      ParseDBError = (\<lambda>e. (500, None)),
      ValidateJobUniqueness = ValidateJobUniqueness_spec warning0,
      CreateChangeLogRawTx = (\<lambda>level msg user l. Inr (l @ [(level, msg, UID user)])),
      text_to_int = read_int,
      show_time = (\<lambda>t. show_int (t div Hour) @ ''h''),
      ApiChange = ''APICHANGE'',
      Created = ''Created'',
      Updated = ''Updated'',
      Deleted = ''Deleted'',
      UseRevalPendingParameterName = ''use_reval_pending'',
      GlobalConfigFileName = ''global''\<rparr>"

definition ann :: CurrentUser where
  "ann = \<lparr>UserName = ''ann'', UID = 7, TenantID = 2\<rparr>"

definition bob :: CurrentUser where
  "bob = \<lparr>UserName = ''bob'', UID = 8, TenantID = 3\<rparr>"

definition info0 :: "CurrentUser \<Rightarrow> (string \<rightharpoonup> string) \<Rightarrow> APIInfo" where
  "info0 user params = \<lparr>Params = params, User = user, Version = Some (3, 0)\<rparr>"

definition input0 :: "string \<Rightarrow> time \<Rightarrow> int \<Rightarrow> InvalidationJobInput" where
  "input0 regex start ttl =
     \<lparr>InDeliveryService = Some (Inl 5), Regex = Some regex, InStartTime = Some start,
      TTL = Some (Inl ttl)\<rparr>"

text \<open>The small store with one job of \<open>ann\<close> on the delivery service, and a payload for it.\<close>

definition db1 :: database where
  "db1 = db0\<lparr>invalidation :=
               [\<lparr>inv_id = 1, inv_ttl_hr = 4, inv_asset_url = ''http://origin.example/path'',
                 inv_start_time = 100, inv_entered_time = 10, inv_job_user = 7,
                 inv_job_deliveryservice = 5, inv_invalidation_type = ''REFRESH''\<rparr>],
             invalidation_id_seq := 1\<rparr>"

definition payload0 :: "string \<Rightarrow> string \<Rightarrow> time \<Rightarrow> InvalidationJob" where
  "payload0 url ps start =
     \<lparr>AssetURL = Some url, CreatedBy = Some ''ann'', DeliveryService = Some ''ds5'', ID = Some 1,
      Keyword = Some ''PURGE'', Parameters = Some ps, StartTime = Some start\<rparr>"

definition id1 :: "string \<rightharpoonup> string" where
  "id1 = [''id'' \<mapsto> ''1'']"

text \<open>
  In a list of statements, \<open>a\<close> precedes \<open>b\<close> when \<open>b\<close> is issued after the first
  \<open>a\<close>.
\<close>

definition precedes :: "stmt \<Rightarrow> stmt \<Rightarrow> stmt list \<Rightarrow> bool" where
  "precedes a b xs \<longleftrightarrow> b \<in> set (drop 1 (dropWhile (\<lambda>x. x \<noteq> a) xs))"

text \<open>
  The tenancy check allows a user on the rows of a tenant lookup when there is a row and
  the check answers \<open>True\<close> for the tenant of the first one. A caller passes the two
  checks of Update (and of Delete) when it is allowed on the delivery service of the job
  and on the creator of the job.
\<close>

definition tenancy_allows :: "collab \<Rightarrow> CurrentUser \<Rightarrow> database \<Rightarrow> nat list \<Rightarrow> bool" where
  "tenancy_allows C user db tenants \<longleftrightarrow>
     (case tenants of [] \<Rightarrow> False
      | tid # _ \<Rightarrow> IsResourceAuthorizedToUserTx C tid user db = Inr True)"

definition no_gate_failure :: "stmt list \<Rightarrow> bool" where
  "no_gate_failure fs \<longleftrightarrow>
     PutInfo \<notin> set fs \<and> SelectJobOwner \<notin> set fs \<and> SelectDSTenant \<notin> set fs
     \<and> SelectUserTenant \<notin> set fs \<and> TenantCheck \<notin> set fs"

text \<open>The same store with the origin on port 81.\<close>

definition db2 :: database where
  "db2 = db1\<lparr>origin := [\<lparr>o_deliveryservice = 5, o_is_primary = True, o_protocol = ''https'',
                             o_fqdn = ''origin.example'', o_port = Some 81\<rparr>]\<rparr>"

text \<open>
  A small engine of queries: it knows the filter \<^verbatim>\<open>dsId\<close>, every user sees its own
  tenant, the maximum of the last changes is 50, and no job is in the window.
\<close>

definition E0 :: engine where
  "E0 = \<lparr>BuildWhereAndOrderByAndPagination =
            (\<lambda>params cols. (case params ''dsId'' of
                               None \<Rightarrow> ([], [], [], Map.empty, [])
                             | Some v \<Rightarrow> (newline @ ''WHERE invalidation.job_deliveryservice=:dsId'', [], [],
                                         [''dsId'' \<mapsto> QText v], []))),
          BaseWhere = newline @ ''WHERE'',
          JoinErrs = concat,
          GetUserTenantIDListTx = (\<lambda>db tid. Inr [tid]),
          MaxQuery = (\<lambda>db q qv. Inr (Some 50)),
          NamedQuery = (\<lambda>db q qv. Inr ([], None))\<rparr>"






section \<open>Properties of the client\<close>

text \<open>
  C10. With \<open>configUpdateTime\<close> nil the request path carries no query parameter at all:
  the other three times are dropped even when they are given. The call is refused, with an
  error and no request, exactly when all four times are nil.
\<close>

theorem SetUpdateServerStatusTimes_nil_config_update:
  "(\<not> (configApplyTime = None \<and> revalUpdateTime = None \<and> revalApplyTime = None) \<longrightarrow>
      SetUpdateServerStatusTimes Format serverName None configApplyTime revalUpdateTime revalApplyTime
        = Inr (''/servers/'' @ serverName @ ''/update?''))
   \<and> ((\<exists>msg. SetUpdateServerStatusTimes Format serverName configUpdateTime configApplyTime revalUpdateTime revalApplyTime = Inl msg)
        \<longleftrightarrow> (configUpdateTime = None \<and> configApplyTime = None \<and> revalUpdateTime = None \<and> revalApplyTime = None))"
  by (auto simp: SetUpdateServerStatusTimes_def Let_def split: option.splits)

theorem SetUpdateServerStatusTimes_nil_config_update_witness:
  "SetUpdateServerStatusTimes (\<lambda>t::nat. replicate t CHR ''s'') ''edge1'' None (Some 1) (Some 2) (Some 3)
     = Inr ''/servers/edge1/update?''"
  using SetUpdateServerStatusTimes_nil_config_update
    [of "Some 1" "Some 2" "Some 3" "\<lambda>t::nat. replicate t CHR ''s''" "''edge1''"]
  by simp

section \<open>The transaction and the flag propagator\<close>

lemmas tx_defs = issued_def query_def exec_def consult_def begin_tx_def
lemmas end_defs = HandleErr_def Close_def panic_def commit_def
lemmas status_defs = StatusOK_def StatusNotModified_def StatusBadRequest_def StatusNotFound_def
  StatusMethodNotAllowed_def StatusConflict_def StatusInternalServerError_def

lemma exec_frame:
  assumes "exec st q t = (r, t')"
  shows "begun t' = begun t" "failing t' = failing t" "executed t' = executed t @ [st]"
  using assms by (auto simp: tx_defs split: if_splits sum.splits prod.splits)

lemma exec_Inl:
  assumes "exec st q t = (Inl e, t')"
  shows "store t' = store t"
  using assms by (auto simp: tx_defs split: if_splits sum.splits prod.splits)

lemma exec_Inr:
  assumes "exec st q t = (Inr x, t')"
  shows "st \<notin> set (failing t) \<and> q (store t) = Inr (x, store t')"
  using assms by (auto simp: tx_defs split: if_splits sum.splits prod.splits)

lemma revalQuery_frame:
  assumes "revalQuery col k db = Inr db'"
  shows "db' = db\<lparr>server := server db'\<rparr>"
  using assms by (auto simp: revalQuery_def split: sum.splits option.splits)

lemma revalQuery_error:
  "revalQuery col k db \<noteq> Inl ErrNoRows"
  by (auto simp: revalQuery_def scalar_def split: sum.splits option.splits list.splits)

lemma setRevalFlags_frame:
  assumes "setRevalFlags C d t = (r, t')"
  shows "begun t' = begun t" "failing t' = failing t"
    "executed t' = executed t @ [SelectUseReval] \<or> executed t' = executed t @ [SelectUseReval, UpdateServers]"
  using assms
  by (auto simp: setRevalFlags_def tx_defs Let_def split: sum.splits prod.splits if_splits)

lemma setRevalFlags_None:
  assumes "setRevalFlags C d t = (None, t')"
  shows "executed t' = executed t @ [SelectUseReval, UpdateServers]"
    and "\<exists>col. revalQuery col d (store t) = Inr (store t')"
    and "SelectUseReval \<notin> set (failing t) \<and> UpdateServers \<notin> set (failing t)"
  using assms
  by (auto simp: setRevalFlags_def tx_defs Let_def store_failure_def revalQuery_error
      split: sum.splits prod.splits if_splits)

lemma setRevalFlags_None_store:
  assumes "setRevalFlags C d t = (None, t')"
  shows "store t' = (store t)\<lparr>server := server (store t')\<rparr>"
  using setRevalFlags_None(2)[OF assms] revalQuery_frame by blast

lemma setRevalFlags_failing:
  assumes "SelectUseReval \<in> set (failing t) \<or> UpdateServers \<in> set (failing t)"
  shows "\<exists>e t'. setRevalFlags C d t = (Some e, t')"
  using assms
  by (auto simp: setRevalFlags_def tx_defs store_failure_def Let_def split: sum.splits prod.splits if_splits)

section \<open>The steps of a successful request\<close>

lemmas auth_defs = IsUserAuthorizedToModifyDSID_def IsUserAuthorizedToModifyDSXMLID_def
  IsUserAuthorizedToModifyJobsMadeByUserID_def IsUserAuthorizedToModifyJobsMadeByUsername_def

lemma IsUserAuthorizedToModifyDSID_frame:
  assumes "IsUserAuthorizedToModifyDSID C info ds t = (r, t')"
  shows "begun t' = begun t" "failing t' = failing t" "store t' = store t"
    "executed t' = executed t @ [SelectDSTenant] \<or> executed t' = executed t @ [SelectDSTenant, TenantCheck]"
  using assms
  by (auto simp: auth_defs tx_defs Let_def split: sum.splits prod.splits if_splits)

lemma IsUserAuthorizedToModifyDSID_True:
  assumes "IsUserAuthorizedToModifyDSID C info ds t = (Inr True, t')"
  shows "executed t' = executed t @ [SelectDSTenant, TenantCheck]"
    and "\<exists>tid. first_row (selectDSTenant (store t) (ByID ds)) = Inr tid
           \<and> IsResourceAuthorizedToUserTx C tid (User info) (store t) = Inr True"
  using assms
  by (auto simp: auth_defs tx_defs Let_def split: sum.splits prod.splits if_splits)

lemma IsUserAuthorizedToModifyJobsMadeByUsername_frame:
  assumes "IsUserAuthorizedToModifyJobsMadeByUsername C info u t = (r, t')"
  shows "begun t' = begun t" "failing t' = failing t" "store t' = store t"
    "executed t' = executed t @ [SelectUserTenant] \<or> executed t' = executed t @ [SelectUserTenant, TenantCheck]"
  using assms
  by (auto simp: auth_defs tx_defs Let_def split: sum.splits prod.splits if_splits)

lemma IsUserAuthorizedToModifyJobsMadeByUsername_True:
  assumes "IsUserAuthorizedToModifyJobsMadeByUsername C info u t = (Inr True, t')"
  shows "executed t' = executed t @ [SelectUserTenant, TenantCheck]"
    and "\<exists>tid. first_row (selectUserTenant (store t) (ByUsername u)) = Inr tid
           \<and> IsResourceAuthorizedToUserTx C tid (User info) (store t) = Inr True"
  using assms
  by (auto simp: auth_defs tx_defs Let_def split: sum.splits prod.splits if_splits)

lemma IsUserAuthorizedToModifyJobsMadeByUserID_frame:
  assumes "IsUserAuthorizedToModifyJobsMadeByUserID C info u t = (r, t')"
  shows "begun t' = begun t" "failing t' = failing t" "store t' = store t"
    "executed t' = executed t @ [SelectUserTenant] \<or> executed t' = executed t @ [SelectUserTenant, TenantCheck]"
  using assms
  by (auto simp: auth_defs tx_defs Let_def split: sum.splits prod.splits if_splits)

lemma IsUserAuthorizedToModifyJobsMadeByUserID_True:
  assumes "IsUserAuthorizedToModifyJobsMadeByUserID C info u t = (Inr True, t')"
  shows "executed t' = executed t @ [SelectUserTenant, TenantCheck]"
    and "\<exists>tid. first_row (selectUserTenant (store t) (ByUserID u)) = Inr tid
           \<and> IsResourceAuthorizedToUserTx C tid (User info) (store t) = Inr True"
  using assms
  by (auto simp: auth_defs tx_defs Let_def split: sum.splits prod.splits if_splits)

text \<open>The change log writes the table \<open>log\<close> only.\<close>

lemma change_log_frame:
  "begun (change_log C msg user t) = begun t"
  "failing (change_log C msg user t) = failing t"
  "executed (change_log C msg user t) = executed t @ [InsertLog]"
  "store (change_log C msg user t) = (store t)\<lparr>log := log (store (change_log C msg user t))\<rparr>"
  "aborted t \<Longrightarrow> aborted (change_log C msg user t)"
  by (auto simp: change_log_def tx_defs split: sum.splits)

subsection \<open>What a successful Create went through\<close>

lemma Create_respond_success:
  assumes "Reply (Create_respond C info start result dsid ttl t) = Some (Written StatusOK alerts (Some res))"
  defines "out \<equiv> Create_respond C info start result dsid ttl t"
  shows "res = result"
    and "\<exists>url. AssetURL result = Some url
           \<and> alerts = conflict_alerts (ValidateJobUniqueness C (store t) dsid start url ttl)
                        @ [\<lparr>Text = created_text C url start ttl, Level = SuccessLevel\<rparr>]"
    and "\<not> RolledBack out \<Longrightarrow> Committed out = (store t)\<lparr>log := log (Committed out)\<rparr>"
    and "\<not> Panicked out \<Longrightarrow> Statements out = executed t @ [ConflictScan, InsertLog]"
  using assms(1) unfolding out_def
  by (auto simp: Create_respond_def tx_defs end_defs Let_def change_log_def split: option.splits prod.splits sum.splits if_splits)


lemma scalar_Some:
  assumes "scalar xs = Inr (Some x)"
  shows "xs = [x]"
  using assms by (auto simp: scalar_def split: list.splits)

lemma insertQuery_Inr:
  assumes "insertQuery db ttl ods regex start entered uid dsid ty = Inr (job, db')"
  obtains org where "org \<in> set (origin db)" "o_deliveryservice org = ods" "o_is_primary org"
    and "AssetURL job = Some (origin_text org @ regex)"
    and "ID job = Some (Suc (invalidation_id_seq db))"
    and "Suc (invalidation_id_seq db) \<notin> inv_id ` set (invalidation db)"
    and "Parameters job = Some (ttl_parameters ttl)"
    and "StartTime job = Some start"
    and "db' = db\<lparr>invalidation := invalidation db @
               [\<lparr>inv_id = Suc (invalidation_id_seq db), inv_ttl_hr = ttl,
                 inv_asset_url = origin_text org @ regex, inv_start_time = start,
                 inv_entered_time = entered, inv_job_user = uid,
                 inv_job_deliveryservice = dsid, inv_invalidation_type = ty\<rparr>],
             invalidation_id_seq := Suc (invalidation_id_seq db)\<rparr>"
proof -
  from assms obtain x where x: "scalar (map origin_text
      (filter (\<lambda>org. o_deliveryservice org = ods \<and> o_is_primary org) (origin db))) = Inr (Some x)"
    by (auto simp: insertQuery_def split: sum.splits option.splits)
  from scalar_Some[OF x] obtain org where
    org: "filter (\<lambda>org. o_deliveryservice org = ods \<and> o_is_primary org) (origin db) = [org]"
      "x = origin_text org"
    by (auto simp: map_eq_Cons_conv)
  have "org \<in> set (filter (\<lambda>org. o_deliveryservice org = ods \<and> o_is_primary org) (origin db))"
    using org(1) by simp
  then have mem: "org \<in> set (origin db)" "o_deliveryservice org = ods" "o_is_primary org"
    by auto
  show thesis
    using assms x org(2) mem
    by (intro that[of org])
       (auto simp: insertQuery_def returning_def Let_def split: sum.splits option.splits if_splits)
qed

lemma Create_insert_success:
  assumes "Reply (Create_insert C info job dsid ttl now t) = Some (Written StatusOK alerts (Some res))"
  defines "out \<equiv> Create_insert C info job dsid ttl now t"
  obtains regex start db1 db2 col url where
    "Regex job = Some regex" "InStartTime job = Some start"
    "insertQuery (store t) (int ttl) dsid regex start now (UID (User info)) dsid ''REFRESH'' = Inr (res, db1)"
    "revalQuery col (ByID dsid) db1 = Inr db2"
    "\<not> RolledBack out \<Longrightarrow> Committed out = db2\<lparr>log := log (Committed out)\<rparr>"
    "AssetURL res = Some url"
    "alerts = conflict_alerts (ValidateJobUniqueness C db2 dsid start url ttl)
                @ [\<lparr>Text = created_text C url start ttl, Level = SuccessLevel\<rparr>]"
    "\<not> Panicked out \<Longrightarrow>
       Statements out = executed t @ [InsertJob, SelectUseReval, UpdateServers, ConflictScan, InsertLog]"
proof -
  from assms(1) obtain regex start where job: "Regex job = Some regex" "InStartTime job = Some start"
    by (auto simp: Create_insert_def end_defs split: option.splits)
  define q where "q = (\<lambda>db. insertQuery db (int ttl) dsid regex start now (UID (User info)) dsid ''REFRESH'')"
  obtain r t1 where E: "exec InsertJob q t = (r, t1)" by (cases "exec InsertJob q t") auto
  obtain err t2 where F: "setRevalFlags C (ByID dsid) t1 = (err, t2)"
    by (cases "setRevalFlags C (ByID dsid) t1") auto
  from assms(1) job E F obtain result where r: "r = Inr result" and err: "err = None"
    and R: "Reply (Create_respond C info start result dsid ttl t2) = Some (Written StatusOK alerts (Some res))"
    and O: "out = Create_respond C info start result dsid ttl t2"
    unfolding out_def
    by (auto simp: Create_insert_def end_defs q_def split: option.splits sum.splits prod.splits)
  from Create_respond_success(1)[OF R] have res: "res = result" .
  from exec_Inr[OF E[unfolded r]] have ins: "q (store t) = Inr (res, store t1)" using res by simp
  from setRevalFlags_None(2)[OF F[unfolded err]] obtain col
    where col: "revalQuery col (ByID dsid) (store t1) = Inr (store t2)" by blast
  from Create_respond_success(2)[OF R] obtain url where url: "AssetURL res = Some url"
    "alerts = conflict_alerts (ValidateJobUniqueness C (store t2) dsid start url ttl)
                @ [\<lparr>Text = created_text C url start ttl, Level = SuccessLevel\<rparr>]"
    using res by auto
  have ex: "executed t2 = executed t @ [InsertJob, SelectUseReval, UpdateServers]"
    using exec_frame(3)[OF E] setRevalFlags_None(1)[OF F[unfolded err]] by simp
  show thesis
  proof (rule that[of regex start "store t1" col "store t2" url])
    show "\<not> RolledBack out \<Longrightarrow> Committed out = (store t2)\<lparr>log := log (Committed out)\<rparr>"
      using Create_respond_success(3)[OF R] O by simp
    show "\<not> Panicked out \<Longrightarrow>
       Statements out = executed t @ [InsertJob, SelectUseReval, UpdateServers, ConflictScan, InsertLog]"
      using Create_respond_success(4)[OF R] O ex by simp
  qed (use job ins col url in \<open>simp_all add: q_def\<close>)
qed


lemma Create_authorize_success:
  assumes "Reply (Create_authorize C info job dsid ttl now t) = Some (Written StatusOK alerts (Some res))"
  obtains t3 where
    "Create_authorize C info job dsid ttl now t = Create_insert C info job dsid ttl now t3"
    "store t3 = store t" "begun t3 = begun t" "failing t3 = failing t"
    "executed t3 = executed t @ [SelectDSTenant, TenantCheck, GetDSNameAndCDN, CheckCDNLock]"
    "\<exists>tid. first_row (selectDSTenant (store t) (ByID dsid)) = Inr tid
       \<and> IsResourceAuthorizedToUserTx C tid (User info) (store t) = Inr True"
proof -
  obtain r t1 where A: "IsUserAuthorizedToModifyDSID C info dsid t = (r, t1)"
    by (cases "IsUserAuthorizedToModifyDSID C info dsid t") auto
  from assms A have r: "r = Inr True"
    by (auto simp: Create_authorize_def end_defs split: sum.splits if_splits)
  note fr = IsUserAuthorizedToModifyDSID_frame[OF A] IsUserAuthorizedToModifyDSID_True[OF A[unfolded r]]
  define t3 where "t3 = issued CheckCDNLock (issued GetDSNameAndCDN t1)"
  have eq: "Create_authorize C info job dsid ttl now t = Create_insert C info job dsid ttl now t3"
    using assms A r
    by (auto simp: Create_authorize_def end_defs consult_def t3_def Let_def
        split: sum.splits option.splits prod.splits)
  show thesis
    by (rule that[of t3]) (use eq fr in \<open>auto simp: t3_def issued_def\<close>)
qed

lemma Create_success:
  assumes "Reply (Create C newinfo body now t) = Some (Written StatusOK alerts (Some res))"
  obtains info job dsid ttl t3 where
    "newinfo = Inr info" "body = Inr job"
    "ValidateInput C (store t) job = None" "DSID C job = Inr dsid" "InTTLHours C job = Inr ttl"
    "Create C newinfo body now t = Create_insert C info job dsid ttl now t3"
    "store t3 = store t" "begun t3 = begun t" "failing t3 = failing t"
    "executed t3 = executed t @ [ValidateInputStmt, SelectDSTenant, TenantCheck, GetDSNameAndCDN, CheckCDNLock]"
    "\<exists>tid. first_row (selectDSTenant (store t) (ByID dsid)) = Inr tid
       \<and> IsResourceAuthorizedToUserTx C tid (User info) (store t) = Inr True"
proof -
  from assms obtain info job dsid ttl where
    in1: "newinfo = Inr info" "body = Inr job" "ValidateInput C (store t) job = None"
      "DSID C job = Inr dsid" "InTTLHours C job = Inr ttl"
    and eq: "Create C newinfo body now t = Create_authorize C info job dsid ttl now (issued ValidateInputStmt t)"
    by (auto simp: Create_def end_defs consult_def Let_def split: sum.splits option.splits prod.splits)
  from assms eq have "Reply (Create_authorize C info job dsid ttl now (issued ValidateInputStmt t))
      = Some (Written StatusOK alerts (Some res))" by simp
  from Create_authorize_success[OF this] obtain t3 where t3:
    "Create_authorize C info job dsid ttl now (issued ValidateInputStmt t) = Create_insert C info job dsid ttl now t3"
    "store t3 = store (issued ValidateInputStmt t)" "begun t3 = begun (issued ValidateInputStmt t)"
    "failing t3 = failing (issued ValidateInputStmt t)"
    "executed t3 = executed (issued ValidateInputStmt t) @ [SelectDSTenant, TenantCheck, GetDSNameAndCDN, CheckCDNLock]"
    "\<exists>tid. first_row (selectDSTenant (store (issued ValidateInputStmt t)) (ByID dsid)) = Inr tid
       \<and> IsResourceAuthorizedToUserTx C tid (User info) (store (issued ValidateInputStmt t)) = Inr True"
    by blast
  show thesis
    by (rule that[of info job dsid ttl t3]) (use in1 eq t3 in \<open>auto simp: issued_def\<close>)
qed

subsection \<open>What a successful Update went through\<close>

lemma Update_respond_success:
  assumes "Reply (Update_respond C info job input url start dsid ds t) = Some (Written StatusOK alerts (Some res))"
  defines "out \<equiv> Update_respond C info job input url start dsid ds t"
  shows "res = job"
    and "\<exists>job_url job_start. AssetURL job = Some job_url \<and> StartTime job = Some job_start
           \<and> alerts = conflict_alerts (ValidateJobUniqueness C (store t) dsid start url (TTLHours C input))
                        @ [\<lparr>Text = created_text C job_url job_start (TTLHours C input), Level = SuccessLevel\<rparr>]"
    and "\<not> RolledBack out \<Longrightarrow> Committed out = (store t)\<lparr>log := log (Committed out)\<rparr>"
    and "\<not> Panicked out \<Longrightarrow> Statements out = executed t @ [ConflictScan, InsertLog]"
  using assms(1) unfolding out_def
  by (auto simp: Update_respond_def tx_defs end_defs Let_def change_log_def
      split: option.splits prod.splits sum.splits if_splits)

lemma those_Cons:
  assumes "those (map f xs) = Some (y # ys)"
  obtains x xs' where "xs = x # xs'" "f x = Some y"
  using assms by (cases xs) (auto split: option.splits)

lemma returning_Inr:
  assumes "returning db row = Inr job"
  shows "AssetURL job = Some (inv_asset_url row)" "ID job = Some (inv_id row)"
    "Parameters job = Some (ttl_parameters (inv_ttl_hr row))" "StartTime job = Some (inv_start_time row)"
    "xml_id_of db (inv_job_deliveryservice row) = Inr (DeliveryService job)"
  using assms by (auto simp: returning_def split: sum.splits)

lemma updateQuery_Inr:
  assumes "updateQuery db asset_url ttl start jid = Inr (job # rest, db')"
  obtains url row where "asset_url = Some url"
    "AssetURL job = Some url" "ID job = Some jid" "Parameters job = Some (ttl_parameters ttl)"
    "StartTime job = Some start"
    "row \<in> set (invalidation db)" "inv_id row = jid"
    "xml_id_of db (inv_job_deliveryservice row) = Inr (DeliveryService job)"
    "db' = db\<lparr>invalidation := map (\<lambda>j. if inv_id j = jid
                then j\<lparr>inv_asset_url := url, inv_ttl_hr := ttl, inv_start_time := start\<rparr> else j)
              (invalidation db)\<rparr>"
proof -
  from assms obtain url where url: "asset_url = Some url"
    by (auto simp: updateQuery_def split: option.splits)
  define upd :: "invalidation_row \<Rightarrow> invalidation_row"
    where "upd = (\<lambda>j. j\<lparr>inv_asset_url := url, inv_ttl_hr := ttl, inv_start_time := start\<rparr>)"
  define f where "f = (\<lambda>j. case returning db (upd j) of Inl e \<Rightarrow> None | Inr r \<Rightarrow> Some r)"
  from assms url have th: "those (map f (filter (\<lambda>j. inv_id j = jid) (invalidation db))) = Some (job # rest)"
    and db': "db' = db\<lparr>invalidation := map (\<lambda>j. if inv_id j = jid then upd j else j) (invalidation db)\<rparr>"
    by (auto simp: updateQuery_def Let_def f_def upd_def split: option.splits)
  from those_Cons[OF th] obtain row xs' where
    row: "filter (\<lambda>j. inv_id j = jid) (invalidation db) = row # xs'" "f row = Some job" by blast
  have "row \<in> set (filter (\<lambda>j. inv_id j = jid) (invalidation db))" using row(1) by simp
  then have mem: "row \<in> set (invalidation db)" "inv_id row = jid" by auto
  from row(2) have ret: "returning db (upd row) = Inr job"
    by (auto simp: f_def split: sum.splits)
  show thesis
    using returning_Inr[OF ret] mem url db'
    by (intro that[of url row]) (auto simp: upd_def)
qed

lemma Update_mutate_success:
  assumes "Reply (Update_mutate C info stored input url t) = Some (Written StatusOK alerts (Some res))"
  defines "out \<equiv> Update_mutate C info stored input url t"
  obtains ps start ttl rest db1 db2 col ds job_url job_start where
    "Parameters input = Some ps" "StartTime input = Some start"
    "text_to_int C (TrimSuffix (TrimPrefix ps ''TTL:'') ''h'') = Some ttl"
    "updateQuery (store t) (AssetURL input) ttl start (pi_id stored) = Inr (res # rest, db1)"
    "DeliveryService res = Some ds"
    "revalQuery col (ByXMLID ds) db1 = Inr db2"
    "\<not> RolledBack out \<Longrightarrow> Committed out = db2\<lparr>log := log (Committed out)\<rparr>"
    "AssetURL res = Some job_url" "StartTime res = Some job_start"
    "alerts = conflict_alerts (ValidateJobUniqueness C db2 (pi_dsid stored) start url (TTLHours C input))
                @ [\<lparr>Text = created_text C job_url job_start (TTLHours C input), Level = SuccessLevel\<rparr>]"
    "\<not> Panicked out \<Longrightarrow>
       Statements out = executed t @ [GetDSNameAndCDN, CheckCDNLock, UpdateJob, SelectUseReval,
                                     UpdateServers, ConflictScan, InsertLog]"
proof -
  define t1 where "t1 = issued CheckCDNLock (issued GetDSNameAndCDN t)"
  from assms(1) obtain ps start where inp: "Parameters input = Some ps" "StartTime input = Some start"
    by (auto simp: Update_mutate_def end_defs consult_def Let_def split: option.splits sum.splits prod.splits)
  define q where "q = (\<lambda>db. case text_to_int C (TrimSuffix (TrimPrefix ps ''TTL:'') ''h'') of
                     None \<Rightarrow> Inl (ErrStore ''invalid input syntax for type bigint'')
                   | Some ttl \<Rightarrow>
                       (case updateQuery db (AssetURL input) ttl start (pi_id stored) of
                          Inl e \<Rightarrow> Inl e
                        | Inr (rows, db') \<Rightarrow>
                            (case rows of [] \<Rightarrow> Inl ErrNoRows | job # _ \<Rightarrow> Inr (job, db'))))"
  obtain r t2 where E: "exec UpdateJob q t1 = (r, t2)" by (cases "exec UpdateJob q t1") auto
  from assms(1) inp E obtain job ds where r: "r = Inr job" and ds: "DeliveryService job = Some ds"
    by (auto simp: Update_mutate_def end_defs consult_def Let_def q_def t1_def
        split: option.splits sum.splits prod.splits)
  obtain err t3 where F: "setRevalFlags C (ByXMLID ds) t2 = (err, t3)"
    by (cases "setRevalFlags C (ByXMLID ds) t2") auto
  from assms(1) inp E r ds F have err: "err = None"
    and R: "Reply (Update_respond C info job input url start (pi_dsid stored) ds t3)
              = Some (Written StatusOK alerts (Some res))"
    and O: "out = Update_respond C info job input url start (pi_dsid stored) ds t3"
    unfolding out_def
    by (auto simp: Update_mutate_def end_defs consult_def Let_def q_def t1_def
        split: option.splits sum.splits prod.splits)
  from Update_respond_success(1)[OF R] have res: "res = job" .
  have st1: "store t1 = store t" "executed t1 = executed t @ [GetDSNameAndCDN, CheckCDNLock]"
    by (simp_all add: t1_def issued_def)
  from exec_Inr[OF E[unfolded r]] have qq: "q (store t) = Inr (res, store t2)" using res st1 by simp
  then obtain ttl rest where ttl: "text_to_int C (TrimSuffix (TrimPrefix ps ''TTL:'') ''h'') = Some ttl"
    and upd: "updateQuery (store t) (AssetURL input) ttl start (pi_id stored) = Inr (res # rest, store t2)"
    by (auto simp: q_def split: option.splits sum.splits prod.splits list.splits)
  from setRevalFlags_None(2)[OF F[unfolded err]] obtain col
    where col: "revalQuery col (ByXMLID ds) (store t2) = Inr (store t3)" by blast
  from Update_respond_success(2)[OF R] obtain job_url job_start where al:
    "AssetURL res = Some job_url" "StartTime res = Some job_start"
    "alerts = conflict_alerts (ValidateJobUniqueness C (store t3) (pi_dsid stored) start url (TTLHours C input))
                @ [\<lparr>Text = created_text C job_url job_start (TTLHours C input), Level = SuccessLevel\<rparr>]"
    using res by auto
  have ex: "executed t3 = executed t @ [GetDSNameAndCDN, CheckCDNLock, UpdateJob, SelectUseReval, UpdateServers]"
    using exec_frame(3)[OF E] setRevalFlags_None(1)[OF F[unfolded err]] st1 by simp
  show thesis
  proof (rule that[of ps start ttl rest "store t2" ds col "store t3" job_url job_start])
    show "\<not> RolledBack out \<Longrightarrow> Committed out = (store t3)\<lparr>log := log (Committed out)\<rparr>"
      using Update_respond_success(3)[OF R] O by simp
    show "\<not> Panicked out \<Longrightarrow>
       Statements out = executed t @ [GetDSNameAndCDN, CheckCDNLock, UpdateJob, SelectUseReval,
                                     UpdateServers, ConflictScan, InsertLog]"
      using Update_respond_success(4)[OF R] O ex by simp
  qed (use inp ttl upd ds res col al in simp_all)
qed


lemma first_row_Inr:
  assumes "first_row xs = Inr x"
  shows "x \<in> set xs" "\<exists>ys. xs = x # ys"
  using assms by (auto simp: first_row_def split: list.splits)

lemma putInfoQuery_row:
  assumes "stored \<in> set (putInfoQuery db jid)"
  obtains j org u d where
    "j \<in> set (invalidation db)" "int (inv_id j) = jid"
    "org \<in> set (origin db)" "o_deliveryservice org = inv_job_deliveryservice j" "o_is_primary org"
    "u \<in> set (tm_user db)" "u_id u = inv_job_user j"
    "d \<in> set (deliveryservice db)" "ds_id d = inv_job_deliveryservice j"
    "pi_id stored = inv_id j" "pi_dsid stored = inv_job_deliveryservice j"
    "pi_OFQDN stored = origin_text org" "pi_createdBy stored = u_username u"
    "pi_dsxmlid stored = ds_xml_id d" "pi_start_time stored = inv_start_time j"
    "pi_createdByID stored = inv_job_user j"
  using assms unfolding putInfoQuery_def by (auto simp: that)

lemma Update_validate_success:
  assumes "Reply (Update_validate C info stored body now t) = Some (Written StatusOK alerts (Some res))"
  obtains input url where
    "body = Inr input" "ValidateJob C input = None" "AssetURL input = Some url"
    "HasPrefix url (pi_OFQDN stored)" "\<not> pi_start_time stored < now"
    "DeliveryService input = Some (pi_dsxmlid stored)" "CreatedBy input = Some (pi_createdBy stored)"
    "ID input = Some (pi_id stored)"
    "Update_validate C info stored body now t = Update_mutate C info stored input url t"
  using assms
  by (auto simp: Update_validate_def end_defs split: sum.splits option.splits if_splits)

lemma Update_authorize_success:
  assumes "Reply (Update_authorize C info stored body now t) = Some (Written StatusOK alerts (Some res))"
  obtains t2 where
    "Update_authorize C info stored body now t = Update_validate C info stored body now t2"
    "store t2 = store t" "begun t2 = begun t" "failing t2 = failing t"
    "executed t2 = executed t @ [SelectDSTenant, TenantCheck, SelectUserTenant, TenantCheck]"
    "\<exists>tid. first_row (selectDSTenant (store t) (ByID (pi_dsid stored))) = Inr tid
       \<and> IsResourceAuthorizedToUserTx C tid (User info) (store t) = Inr True"
    "\<exists>tid. first_row (selectUserTenant (store t) (ByUsername (pi_createdBy stored))) = Inr tid
       \<and> IsResourceAuthorizedToUserTx C tid (User info) (store t) = Inr True"
proof -
  obtain r t1 where A: "IsUserAuthorizedToModifyDSID C info (pi_dsid stored) t = (r, t1)"
    by (cases "IsUserAuthorizedToModifyDSID C info (pi_dsid stored) t") auto
  from assms A have r: "r = Inr True"
    by (auto simp: Update_authorize_def end_defs split: sum.splits if_splits)
  note fr1 = IsUserAuthorizedToModifyDSID_frame[OF A] IsUserAuthorizedToModifyDSID_True[OF A[unfolded r]]
  obtain r2 t2 where B: "IsUserAuthorizedToModifyJobsMadeByUsername C info (pi_createdBy stored) t1 = (r2, t2)"
    by (cases "IsUserAuthorizedToModifyJobsMadeByUsername C info (pi_createdBy stored) t1") auto
  from assms A r B have r2: "r2 = Inr True"
    by (auto simp: Update_authorize_def end_defs split: sum.splits if_splits)
  note fr2 = IsUserAuthorizedToModifyJobsMadeByUsername_frame[OF B]
    IsUserAuthorizedToModifyJobsMadeByUsername_True[OF B[unfolded r2]]
  have eq: "Update_authorize C info stored body now t = Update_validate C info stored body now t2"
    using A r B r2 by (simp add: Update_authorize_def)
  show thesis
    by (rule that[of t2]) (use eq fr1 fr2 in auto)
qed

lemma Update_success:
  assumes "Reply (Update C newinfo body now t) = Some (Written StatusOK alerts (Some res))"
  obtains info jid stored t2 input url where
    "newinfo = Inr info" "text_to_int C (param info ''id'') = Some jid"
    "first_row (putInfoQuery (store t) jid) = Inr stored"
    "body = Inr input" "ValidateJob C input = None" "AssetURL input = Some url"
    "HasPrefix url (pi_OFQDN stored)" "\<not> pi_start_time stored < now"
    "DeliveryService input = Some (pi_dsxmlid stored)" "CreatedBy input = Some (pi_createdBy stored)"
    "ID input = Some (pi_id stored)"
    "Update C newinfo body now t = Update_mutate C info stored input url t2"
    "store t2 = store t" "begun t2 = begun t" "failing t2 = failing t"
    "executed t2 = executed t @ [PutInfo, SelectDSTenant, TenantCheck, SelectUserTenant, TenantCheck]"
    "\<exists>tid. first_row (selectDSTenant (store t) (ByID (pi_dsid stored))) = Inr tid
       \<and> IsResourceAuthorizedToUserTx C tid (User info) (store t) = Inr True"
    "\<exists>tid. first_row (selectUserTenant (store t) (ByUsername (pi_createdBy stored))) = Inr tid
       \<and> IsResourceAuthorizedToUserTx C tid (User info) (store t) = Inr True"
proof -
  from assms obtain info jid stored where
    in1: "newinfo = Inr info" "text_to_int C (param info ''id'') = Some jid"
      "first_row (putInfoQuery (store t) jid) = Inr stored"
    and eq: "Update C newinfo body now t = Update_authorize C info stored body now (issued PutInfo t)"
    by (auto simp: Update_def end_defs query_def Let_def split: sum.splits option.splits prod.splits if_splits)
  from assms eq have R1: "Reply (Update_authorize C info stored body now (issued PutInfo t))
      = Some (Written StatusOK alerts (Some res))" by simp
  from Update_authorize_success[OF R1] obtain t2 where t2:
    "Update_authorize C info stored body now (issued PutInfo t) = Update_validate C info stored body now t2"
    "store t2 = store (issued PutInfo t)" "begun t2 = begun (issued PutInfo t)"
    "failing t2 = failing (issued PutInfo t)"
    "executed t2 = executed (issued PutInfo t) @ [SelectDSTenant, TenantCheck, SelectUserTenant, TenantCheck]"
    "\<exists>tid. first_row (selectDSTenant (store (issued PutInfo t)) (ByID (pi_dsid stored))) = Inr tid
       \<and> IsResourceAuthorizedToUserTx C tid (User info) (store (issued PutInfo t)) = Inr True"
    "\<exists>tid. first_row (selectUserTenant (store (issued PutInfo t)) (ByUsername (pi_createdBy stored))) = Inr tid
       \<and> IsResourceAuthorizedToUserTx C tid (User info) (store (issued PutInfo t)) = Inr True"
    by blast
  from R1 t2(1) have R2: "Reply (Update_validate C info stored body now t2)
      = Some (Written StatusOK alerts (Some res))" by simp
  from Update_validate_success[OF R2] obtain input url where v:
    "body = Inr input" "ValidateJob C input = None" "AssetURL input = Some url"
    "HasPrefix url (pi_OFQDN stored)" "\<not> pi_start_time stored < now"
    "DeliveryService input = Some (pi_dsxmlid stored)" "CreatedBy input = Some (pi_createdBy stored)"
    "ID input = Some (pi_id stored)"
    "Update_validate C info stored body now t2 = Update_mutate C info stored input url t2"
    by blast
  show thesis
    by (rule that[of info jid stored input url t2]) (use in1 eq t2 v in \<open>auto simp: issued_def\<close>)
qed

subsection \<open>What a successful Delete went through\<close>

lemma Delete_respond_success:
  assumes "Reply (Delete_respond C info result t) = Some (Written StatusOK alerts (Some res))"
  defines "out \<equiv> Delete_respond C info result t"
  shows "res = result"
    and "\<not> RolledBack out \<Longrightarrow> Committed out = (store t)\<lparr>log := log (Committed out)\<rparr>"
    and "\<not> Panicked out \<Longrightarrow> Statements out = executed t @ [InsertLog]"
  using assms(1) unfolding out_def
  by (auto simp: Delete_respond_def tx_defs end_defs Let_def change_log_def
      split: option.splits prod.splits sum.splits if_splits)

lemma Delete_mutate_success:
  assumes "Reply (Delete_mutate C info dsid t) = Some (Written StatusOK alerts (Some res))"
    and "\<not> Panicked (Delete_mutate C info dsid t)"
  shows "Statements (Delete_mutate C info dsid t)
           = executed t @ [GetDSNameAndCDN, CheckCDNLock, DeleteJob, SelectUseReval, UpdateServers, InsertLog]"
proof -
  define t1 where "t1 = issued CheckCDNLock (issued GetDSNameAndCDN t)"
  define q where "q = (\<lambda>db. case text_to_int C (param info ''id'') of
                     None \<Rightarrow> Inl (ErrStore ''invalid input syntax for type bigint'')
                   | Some jid \<Rightarrow>
                       (case deleteQuery db jid of Inl e \<Rightarrow> Inl e
                        | Inr (rows, db') \<Rightarrow>
                            (case rows of [] \<Rightarrow> Inl ErrNoRows | job # _ \<Rightarrow> Inr (job, db'))))"
  obtain r t2 where E: "exec DeleteJob q t1 = (r, t2)" by (cases "exec DeleteJob q t1") auto
  from assms(1) E obtain result where r: "r = Inr result"
    by (auto simp: Delete_mutate_def end_defs consult_def Let_def q_def t1_def
        split: option.splits sum.splits prod.splits)
  obtain err t3 where F: "setRevalFlags C (ByID dsid) t2 = (err, t3)"
    by (cases "setRevalFlags C (ByID dsid) t2") auto
  from assms(1) E r F have err: "err = None"
    and O: "Delete_mutate C info dsid t = Delete_respond C info result t3"
    by (auto simp: Delete_mutate_def end_defs consult_def Let_def q_def t1_def
        split: option.splits sum.splits prod.splits)
  have ex: "executed t3 = executed t @ [GetDSNameAndCDN, CheckCDNLock, DeleteJob, SelectUseReval, UpdateServers]"
    using exec_frame(3)[OF E] setRevalFlags_None(1)[OF F[unfolded err]]
    by (simp add: t1_def issued_def)
  show ?thesis
    using Delete_respond_success(3)[of C info result t3 alerts res] assms O ex by simp
qed

lemma Delete_success:
  assumes "Reply (Delete C newinfo t) = Some (Written StatusOK alerts (Some res))"
    and "\<not> Panicked (Delete C newinfo t)"
  shows "Statements (Delete C newinfo t)
           = executed t @ [SelectJobOwner, SelectDSTenant, TenantCheck, SelectUserTenant, TenantCheck,
                           GetDSNameAndCDN, CheckCDNLock, DeleteJob, SelectUseReval, UpdateServers, InsertLog]"
proof -
  from assms(1) obtain info dsid createdBy where in1: "newinfo = Inr info"
    and q: "fst (query SelectJobOwner
            (\<lambda>db. case text_to_int C (param info ''id'') of
                     None \<Rightarrow> Inl (ErrStore ''invalid input syntax for type bigint'')
                   | Some jid \<Rightarrow> first_row (selectJobOwner db jid)) t) = Inr (dsid, createdBy)"
    by (auto simp: Delete_def end_defs query_def Let_def split: sum.splits prod.splits if_splits)
  define t0 where "t0 = issued SelectJobOwner t"
  obtain r t1 where A: "IsUserAuthorizedToModifyDSID C info dsid t0 = (r, t1)"
    by (cases "IsUserAuthorizedToModifyDSID C info dsid t0") auto
  from assms(1) in1 q A have r: "r = Inr True"
    by (auto simp: Delete_def end_defs query_def Let_def t0_def split: sum.splits prod.splits if_splits)
  obtain r2 t2 where B: "IsUserAuthorizedToModifyJobsMadeByUserID C info createdBy t1 = (r2, t2)"
    by (cases "IsUserAuthorizedToModifyJobsMadeByUserID C info createdBy t1") auto
  from assms(1) in1 q A r B have r2: "r2 = Inr True"
    by (auto simp: Delete_def end_defs query_def Let_def t0_def split: sum.splits prod.splits if_splits)
  have eq: "Delete C newinfo t = Delete_mutate C info dsid t2"
    using in1 q A r B r2
    by (auto simp: Delete_def query_def Let_def t0_def split: sum.splits prod.splits if_splits)
  have ex: "executed t2 = executed t @ [SelectJobOwner, SelectDSTenant, TenantCheck, SelectUserTenant, TenantCheck]"
    using IsUserAuthorizedToModifyDSID_True(1)[OF A[unfolded r]]
      IsUserAuthorizedToModifyJobsMadeByUserID_True(1)[OF B[unfolded r2]]
    by (simp add: t0_def issued_def)
  show ?thesis
    using Delete_mutate_success[of C info dsid t2 alerts res] assms eq ex by simp
qed

lemma same_but_log:
  assumes "d' = d\<lparr>log := l\<rparr>"
  shows "invalidation d' = invalidation d" "server d' = server d" "origin d' = origin d"
    "deliveryservice d' = deliveryservice d" "tm_user d' = tm_user d" "tenant d' = tenant d"
    "invalidation_id_seq d' = invalidation_id_seq d" "status d' = status d"
    "parameter d' = parameter d" "profile_parameter d' = profile_parameter d"
  by (simp_all add: assms)

lemma same_but_server:
  assumes "d' = d\<lparr>server := l\<rparr>"
  shows "invalidation d' = invalidation d" "log d' = log d" "origin d' = origin d"
    "deliveryservice d' = deliveryservice d" "tm_user d' = tm_user d" "tenant d' = tenant d"
    "invalidation_id_seq d' = invalidation_id_seq d" "status d' = status d"
    "parameter d' = parameter d" "profile_parameter d' = profile_parameter d"
  by (simp_all add: assms)

section \<open>The order of the steps\<close>

text \<open>
  C5, as the code has it. A Create or an Update that succeeds has issued, in this order and
  on the one transaction of the request: the tenancy checks, the statement that writes the
  job, the two statements of the flag propagator, the conflict scan, and the append to the
  change log. The conflict scan comes after the job is written and the flags are set, not
  before. A Delete that succeeds has issued the same without a conflict scan.
\<close>

theorem mutating_steps_order:
  "(Reply (Create C newinfo body now (begin_tx db fs)) = Some (Written StatusOK alerts (Some job))
      \<and> \<not> Panicked (Create C newinfo body now (begin_tx db fs))
    \<longrightarrow> Statements (Create C newinfo body now (begin_tx db fs))
          = [ValidateInputStmt, SelectDSTenant, TenantCheck, GetDSNameAndCDN, CheckCDNLock,
             InsertJob, SelectUseReval, UpdateServers, ConflictScan, InsertLog])
 \<and> (Reply (Update C newinfo' body' now (begin_tx db fs)) = Some (Written StatusOK alerts' (Some job'))
      \<and> \<not> Panicked (Update C newinfo' body' now (begin_tx db fs))
    \<longrightarrow> Statements (Update C newinfo' body' now (begin_tx db fs))
          = [PutInfo, SelectDSTenant, TenantCheck, SelectUserTenant, TenantCheck, GetDSNameAndCDN,
             CheckCDNLock, UpdateJob, SelectUseReval, UpdateServers, ConflictScan, InsertLog])
 \<and> (Reply (Delete C newinfo'' (begin_tx db fs)) = Some (Written StatusOK alerts'' (Some job''))
      \<and> \<not> Panicked (Delete C newinfo'' (begin_tx db fs))
    \<longrightarrow> Statements (Delete C newinfo'' (begin_tx db fs))
          = [SelectJobOwner, SelectDSTenant, TenantCheck, SelectUserTenant, TenantCheck,
             GetDSNameAndCDN, CheckCDNLock, DeleteJob, SelectUseReval, UpdateServers, InsertLog])"
proof (intro conjI impI)
  let ?t = "begin_tx db fs"
  assume a: "Reply (Create C newinfo body now ?t) = Some (Written StatusOK alerts (Some job))
      \<and> \<not> Panicked (Create C newinfo body now ?t)"
  then have R: "Reply (Create C newinfo body now ?t) = Some (Written StatusOK alerts (Some job))"
    and P: "\<not> Panicked (Create C newinfo body now ?t)" by simp_all
  show "Statements (Create C newinfo body now ?t)
          = [ValidateInputStmt, SelectDSTenant, TenantCheck, GetDSNameAndCDN, CheckCDNLock,
             InsertJob, SelectUseReval, UpdateServers, ConflictScan, InsertLog]"
  proof (rule Create_success[OF R])
    fix info input dsid ttl t3
    assume eq: "Create C newinfo body now ?t = Create_insert C info input dsid ttl now t3"
      and ex: "executed t3 = executed ?t @ [ValidateInputStmt, SelectDSTenant, TenantCheck,
                                            GetDSNameAndCDN, CheckCDNLock]"
    from R eq have R': "Reply (Create_insert C info input dsid ttl now t3)
        = Some (Written StatusOK alerts (Some job))" by simp
    show ?thesis
    proof (rule Create_insert_success[OF R'])
      assume "\<not> Panicked (Create_insert C info input dsid ttl now t3) \<Longrightarrow>
         Statements (Create_insert C info input dsid ttl now t3)
           = executed t3 @ [InsertJob, SelectUseReval, UpdateServers, ConflictScan, InsertLog]"
      then show ?thesis using P eq ex by (simp add: begin_tx_def)
    qed
  qed
next
  let ?t = "begin_tx db fs"
  assume a: "Reply (Update C newinfo' body' now ?t) = Some (Written StatusOK alerts' (Some job'))
      \<and> \<not> Panicked (Update C newinfo' body' now ?t)"
  then have R: "Reply (Update C newinfo' body' now ?t) = Some (Written StatusOK alerts' (Some job'))"
    and P: "\<not> Panicked (Update C newinfo' body' now ?t)" by simp_all
  show "Statements (Update C newinfo' body' now ?t)
          = [PutInfo, SelectDSTenant, TenantCheck, SelectUserTenant, TenantCheck, GetDSNameAndCDN,
             CheckCDNLock, UpdateJob, SelectUseReval, UpdateServers, ConflictScan, InsertLog]"
  proof (rule Update_success[OF R])
    fix info stored t2 input url
    assume eq: "Update C newinfo' body' now ?t = Update_mutate C info stored input url t2"
      and ex: "executed t2 = executed ?t @ [PutInfo, SelectDSTenant, TenantCheck, SelectUserTenant, TenantCheck]"
    from R eq have R': "Reply (Update_mutate C info stored input url t2)
        = Some (Written StatusOK alerts' (Some job'))" by simp
    show ?thesis
    proof (rule Update_mutate_success[OF R'])
      assume "\<not> Panicked (Update_mutate C info stored input url t2) \<Longrightarrow>
         Statements (Update_mutate C info stored input url t2)
           = executed t2 @ [GetDSNameAndCDN, CheckCDNLock, UpdateJob, SelectUseReval,
                            UpdateServers, ConflictScan, InsertLog]"
      then show ?thesis using P eq ex by (simp add: begin_tx_def)
    qed
  qed
next
  let ?t = "begin_tx db fs"
  assume a: "Reply (Delete C newinfo'' ?t) = Some (Written StatusOK alerts'' (Some job''))
      \<and> \<not> Panicked (Delete C newinfo'' ?t)"
  then show "Statements (Delete C newinfo'' ?t)
          = [SelectJobOwner, SelectDSTenant, TenantCheck, SelectUserTenant, TenantCheck,
             GetDSNameAndCDN, CheckCDNLock, DeleteJob, SelectUseReval, UpdateServers, InsertLog]"
    using Delete_success[of C newinfo'' ?t alerts'' job''] by (simp add: begin_tx_def)
qed

theorem mutating_steps_order_counterexample:
  "Reply (Create C0 (Inr (info0 ann Map.empty)) (Inr (input0 ''/path'' 100 4)) 10 (begin_tx db0 []))
     = Some (Written StatusOK
         [\<lparr>Text = ''overlaps job 1'', Level = WarnLevel\<rparr>,
          \<lparr>Text = ''Invalidation request created for http://origin.example/path, start:0h end 4h'',
            Level = SuccessLevel\<rparr>]
         (Some \<lparr>AssetURL = Some ''http://origin.example/path'', CreatedBy = Some ''ann'',
                 DeliveryService = Some ''ds5'', ID = Some 1, Keyword = Some ''PURGE'',
                 Parameters = Some ''TTL:4h'', StartTime = Some 100\<rparr>))
   \<and> precedes InsertJob ConflictScan
        (Statements (Create C0 (Inr (info0 ann Map.empty)) (Inr (input0 ''/path'' 100 4)) 10 (begin_tx db0 [])))
   \<and> \<not> precedes ConflictScan InsertJob
        (Statements (Create C0 (Inr (info0 ann Map.empty)) (Inr (input0 ''/path'' 100 4)) 10 (begin_tx db0 [])))"
  by code_simp

theorem mutating_steps_order_witness:
  "Statements (Create C0 (Inr (info0 ann Map.empty)) (Inr (input0 ''/path'' 100 4)) 10 (begin_tx db0 []))
     = [ValidateInputStmt, SelectDSTenant, TenantCheck, GetDSNameAndCDN, CheckCDNLock,
        InsertJob, SelectUseReval, UpdateServers, ConflictScan, InsertLog]
   \<and> Statements (Update C0 (Inr (info0 ann id1))
        (Inr (payload0 ''http://origin.example/new'' ''TTL:48h'' 200)) 10 (begin_tx db1 []))
     = [PutInfo, SelectDSTenant, TenantCheck, SelectUserTenant, TenantCheck, GetDSNameAndCDN,
        CheckCDNLock, UpdateJob, SelectUseReval, UpdateServers, ConflictScan, InsertLog]
   \<and> Statements (Delete C0 (Inr (info0 ann id1)) (begin_tx db1 []))
     = [SelectJobOwner, SelectDSTenant, TenantCheck, SelectUserTenant, TenantCheck,
        GetDSNameAndCDN, CheckCDNLock, DeleteJob, SelectUseReval, UpdateServers, InsertLog]"
proof -
  let ?c = "Create C0 (Inr (info0 ann Map.empty)) (Inr (input0 ''/path'' 100 4)) 10 (begin_tx db0 [])"
  let ?u = "Update C0 (Inr (info0 ann id1))
        (Inr (payload0 ''http://origin.example/new'' ''TTL:48h'' 200)) 10 (begin_tx db1 [])"
  let ?d = "Delete C0 (Inr (info0 ann id1)) (begin_tx db1 [])"
  have "case Reply ?c of Some (Written code alerts (Some job)) \<Rightarrow> code = StatusOK | _ \<Rightarrow> False"
    by code_simp
  then obtain ca cj where c: "Reply ?c = Some (Written StatusOK ca (Some cj))"
    by (auto split: option.splits reply.splits)
  have "case Reply ?u of Some (Written code alerts (Some job)) \<Rightarrow> code = StatusOK | _ \<Rightarrow> False"
    by code_simp
  then obtain ua uj where u: "Reply ?u = Some (Written StatusOK ua (Some uj))"
    by (auto split: option.splits reply.splits)
  have "case Reply ?d of Some (Written code alerts (Some job)) \<Rightarrow> code = StatusOK | _ \<Rightarrow> False"
    by code_simp
  then obtain da dj where d: "Reply ?d = Some (Written StatusOK da (Some dj))"
    by (auto split: option.splits reply.splits)
  have p: "\<not> Panicked ?c" "\<not> Panicked ?u" "\<not> Panicked ?d" by code_simp+
  from mutating_steps_order[of C0 "Inr (info0 ann Map.empty)" "Inr (input0 ''/path'' 100 4)" 10 db0 "[]" ca cj]
    c p(1) have 1: "Statements ?c = [ValidateInputStmt, SelectDSTenant, TenantCheck, GetDSNameAndCDN, CheckCDNLock,
        InsertJob, SelectUseReval, UpdateServers, ConflictScan, InsertLog]" by blast
  from mutating_steps_order[of C0 _ _ 10 db1 "[]" _ _ "Inr (info0 ann id1)"
      "Inr (payload0 ''http://origin.example/new'' ''TTL:48h'' 200)" ua uj "Inr (info0 ann id1)" da dj]
    u d p(2,3) show ?thesis using 1 by blast
qed

section \<open>Requests that are refused\<close>


lemma IsUserAuthorizedToModifyDSID_eval:
  "IsUserAuthorizedToModifyDSID C info ds t =
     (if SelectDSTenant \<in> set (failing t) then (Inl store_failure, issued SelectDSTenant t)
      else case selectDSTenant (store t) (ByID ds) of
             [] \<Rightarrow> (Inr False, issued SelectDSTenant t)
           | tid # _ \<Rightarrow>
               (if TenantCheck \<in> set (failing t) then Inl store_failure
                else IsResourceAuthorizedToUserTx C tid (User info) (store t),
                issued TenantCheck (issued SelectDSTenant t)))"
  by (auto simp: auth_defs tx_defs first_row_def store_failure_def split: list.splits)


lemma IsUserAuthorizedToModifyJobsMadeByUsername_eval:
  "IsUserAuthorizedToModifyJobsMadeByUsername C info u t =
     (if SelectUserTenant \<in> set (failing t) then (Inl store_failure, issued SelectUserTenant t)
      else case selectUserTenant (store t) (ByUsername u) of
             [] \<Rightarrow> (Inr False, issued SelectUserTenant t)
           | tid # _ \<Rightarrow>
               (if TenantCheck \<in> set (failing t) then Inl store_failure
                else IsResourceAuthorizedToUserTx C tid (User info) (store t),
                issued TenantCheck (issued SelectUserTenant t)))"
  by (auto simp: auth_defs tx_defs first_row_def store_failure_def split: list.splits)


text \<open>
  The two tenancy checks of Update end the request with status 404 or 500, the
  transaction rolled back, or hand it to the checks of the payload with the store untouched.
\<close>

lemma Update_authorize_cases:
  obtains (refused) t' code ue where
      "Update_authorize C info stored body now t = HandleErr t' code ue"
      "begun t' = begun t" "code = StatusNotFound \<or> code = StatusInternalServerError"
  | (passed) t' where
      "Update_authorize C info stored body now t = Update_validate C info stored body now t'"
      "begun t' = begun t" "store t' = store t" "failing t' = failing t"
proof -
  obtain r t1 where A: "IsUserAuthorizedToModifyDSID C info (pi_dsid stored) t = (r, t1)"
    by (cases "IsUserAuthorizedToModifyDSID C info (pi_dsid stored) t") auto
  note f1 = IsUserAuthorizedToModifyDSID_frame[OF A]
  obtain r2 t2 where B: "IsUserAuthorizedToModifyJobsMadeByUsername C info (pi_createdBy stored) t1 = (r2, t2)"
    by (cases "IsUserAuthorizedToModifyJobsMadeByUsername C info (pi_createdBy stored) t1") auto
  note f2 = IsUserAuthorizedToModifyJobsMadeByUsername_frame[OF B]
  show thesis
  proof (cases "r = Inr True \<and> r2 = Inr True")
    case True
    then have "Update_authorize C info stored body now t = Update_validate C info stored body now t2"
      using A B by (simp add: Update_authorize_def)
    then show thesis using f1 f2 by (intro passed[of t2]) auto
  next
    case False
    then consider "\<exists>e. r = Inl e" | "r = Inr False" | "r = Inr True" "\<exists>e. r2 = Inl e" | "r = Inr True" "r2 = Inr False"
      by (cases r; cases r2) auto
    then show thesis
    proof cases
      case 1 then show ?thesis using A f1 by (intro refused[of t1 StatusInternalServerError None]) (auto simp: Update_authorize_def)
    next
      case 2 then show ?thesis using A f1
        by (intro refused[of t1 StatusNotFound "Some ''No such Delivery Service!''"]) (auto simp: Update_authorize_def)
    next
      case 3 then show ?thesis using A B f1 f2
        by (intro refused[of t2 StatusInternalServerError None]) (auto simp: Update_authorize_def)
    next
      case 4 then show ?thesis using A B f1 f2
        by (intro refused[of t2 StatusNotFound "Some (no_job_by_id info)"]) (auto simp: Update_authorize_def)
    qed
  qed
qed

lemma Update_authorize_passes:
  assumes "SelectDSTenant \<notin> set (failing t)" "SelectUserTenant \<notin> set (failing t)"
    "TenantCheck \<notin> set (failing t)"
    and "tenancy_allows C (User info) (store t) (selectDSTenant (store t) (ByID (pi_dsid stored)))"
    and "tenancy_allows C (User info) (store t) (selectUserTenant (store t) (ByUsername (pi_createdBy stored)))"
  shows "Update_authorize C info stored body now t
          = Update_validate C info stored body now
              (issued TenantCheck (issued SelectUserTenant (issued TenantCheck (issued SelectDSTenant t))))"
  using assms
  by (auto simp: Update_authorize_def IsUserAuthorizedToModifyDSID_eval
      IsUserAuthorizedToModifyJobsMadeByUsername_eval tenancy_allows_def issued_def
      split: list.splits)

lemma Update_cases:
  obtains (refused) t' code ue where
      "Update C (Inr info) body now t = HandleErr t' code ue"
      "begun t' = begun t" "code = StatusNotFound \<or> code = StatusInternalServerError"
  | (found) jid stored where
      "text_to_int C (param info ''id'') = Some jid"
      "first_row (putInfoQuery (store t) jid) = Inr stored"
      "PutInfo \<notin> set (failing t)"
      "Update C (Inr info) body now t = Update_authorize C info stored body now (issued PutInfo t)"
proof -
  define q where "q = (\<lambda>db. case text_to_int C (param info ''id'') of
                     None \<Rightarrow> Inl (ErrStore ''invalid input syntax for type bigint'')
                   | Some jid \<Rightarrow> first_row (putInfoQuery db jid))"
  define r where "r = fst (query PutInfo q t)"
  have U: "Update C (Inr info) body now t =
      (case r of Inl e \<Rightarrow> if e = ErrNoRows then HandleErr (issued PutInfo t) StatusNotFound (Some (no_job_by_id info))
                     else HandleErr (issued PutInfo t) StatusInternalServerError None
         | Inr stored \<Rightarrow> Update_authorize C info stored body now (issued PutInfo t))"
    by (simp add: Update_def query_def r_def q_def)
  show thesis
  proof (cases r)
    case (Inl e)
    then show ?thesis using U
      by (cases "e = ErrNoRows")
         (auto intro: refused[of "issued PutInfo t" StatusNotFound "Some (no_job_by_id info)"]
                      refused[of "issued PutInfo t" StatusInternalServerError None] simp: issued_def)
  next
    case (Inr stored)
    then have nf: "PutInfo \<notin> set (failing t)" and qq: "q (store t) = Inr stored"
      by (auto simp: r_def query_def split: if_splits)
    then obtain jid where "text_to_int C (param info ''id'') = Some jid"
      "first_row (putInfoQuery (store t) jid) = Inr stored"
      by (auto simp: q_def split: option.splits)
    then show ?thesis using U Inr nf by (intro found[of jid stored]) auto
  qed
qed

text \<open>Once the stored job has started, the checks of the payload end in a 400, a 405 or a panic.\<close>

lemma Update_validate_started:
  assumes "pi_start_time stored < now"
  shows "Update_validate C info stored body now t =
     (case body of
        Inl err \<Rightarrow> HandleErr t StatusBadRequest (Some (''Unable to parse input: '' @ err))
      | Inr input \<Rightarrow>
     (case ValidateJob C input of Some err \<Rightarrow> HandleErr t StatusBadRequest (Some err)
      | None \<Rightarrow>
     (case AssetURL input of None \<Rightarrow> panic t None
      | Some url \<Rightarrow>
        if \<not> HasPrefix url (pi_OFQDN stored)
        then HandleErr t StatusBadRequest
               (Some (''Cannot set asset URL that does not start with Delivery Service origin URL: ''
                        @ pi_OFQDN stored))
        else HandleErr t StatusMethodNotAllowed (Some ''Cannot modify a job that has already started!''))))"
  using assms by (simp add: Update_validate_def split: sum.splits option.splits)

section \<open>Update: the TTL\<close>

lemma HasPrefix_iff: "HasPrefix s p \<longleftrightarrow> (\<exists>r. s = p @ r)"
proof
  assume "HasPrefix s p"
  then have "s = p @ drop (length p) s"
    unfolding HasPrefix_def by (metis append_take_drop_id)
  then show "\<exists>r. s = p @ r" ..
next
  assume "\<exists>r. s = p @ r"
  then show "HasPrefix s p" by (auto simp: HasPrefix_def)
qed

lemma HasSuffix_iff: "HasSuffix s q \<longleftrightarrow> (\<exists>r. s = r @ q)"
proof
  assume "HasSuffix s q"
  then have "s = take (length s - length q) s @ q"
    unfolding HasSuffix_def by (metis append_take_drop_id)
  then show "\<exists>r. s = r @ q" ..
next
  assume "\<exists>r. s = r @ q"
  then show "HasSuffix s q" by (auto simp: HasSuffix_def)
qed

lemma strip_TTL: "TrimSuffix (TrimPrefix (''TTL:'' @ n @ ''h'') ''TTL:'') ''h'' = n"
  by (simp add: TrimSuffix_def TrimPrefix_def HasPrefix_def HasSuffix_def)

lemma strip_plain:
  assumes "\<forall>m. ps \<noteq> ''TTL:'' @ m" "\<forall>m. ps \<noteq> m @ ''h''"
  shows "TrimSuffix (TrimPrefix ps ''TTL:'') ''h'' = ps"
  using assms by (simp add: TrimSuffix_def TrimPrefix_def HasPrefix_iff HasSuffix_iff)

text \<open>
  C9. A successful Update stores, as the TTL of the job, the number that the store reads
  from the payload's \<^verbatim>\<open>parameters\<close> without its prefix \<^verbatim>\<open>TTL:\<close> and its suffix \<^verbatim>\<open>h\<close>:
  for \<^verbatim>\<open>TTL:\<close> followed by a text and \<^verbatim>\<open>h\<close> it is the reading of that text, and for
  a text with neither the prefix nor the suffix it is the reading of the whole. The payload
  has no other field for the TTL. The job is the one that the request parameter \<^verbatim>\<open>id\<close>
  names; the returned job prints this number, and unless the transaction is rolled back
  every row of the job in the store that the request leaves holds it.
\<close>

theorem Update_ttl_from_parameters:
  assumes "Reply (Update C newinfo body now (begin_tx db fs)) = Some (Written StatusOK alerts (Some job))"
  shows "\<exists>info input ps ttl jid.
           newinfo = Inr info \<and> body = Inr input \<and> Parameters input = Some ps
         \<and> text_to_int C (param info ''id'') = Some (int jid) \<and> ID job = Some jid
         \<and> text_to_int C (TrimSuffix (TrimPrefix ps ''TTL:'') ''h'') = Some ttl
         \<and> (\<forall>n. ps = ''TTL:'' @ n @ ''h'' \<longrightarrow> text_to_int C n = Some ttl)
         \<and> ((\<forall>m. ps \<noteq> ''TTL:'' @ m) \<and> (\<forall>m. ps \<noteq> m @ ''h'') \<longrightarrow> text_to_int C ps = Some ttl)
         \<and> Parameters job = Some (''TTL:'' @ show_int ttl @ ''h'')
         \<and> (\<not> RolledBack (Update C newinfo body now (begin_tx db fs)) \<longrightarrow>
              (\<exists>row \<in> set (invalidation (Committed (Update C newinfo body now (begin_tx db fs)))).
                 inv_id row = jid)
            \<and> (\<forall>row \<in> set (invalidation (Committed (Update C newinfo body now (begin_tx db fs)))).
                 inv_id row = jid \<longrightarrow> inv_ttl_hr row = ttl))"
proof -
  let ?t = "begin_tx db fs"
  let ?out = "Update C newinfo body now ?t"
  show ?thesis
  proof (rule Update_success[OF assms])
    fix info jid stored t2 input url
    assume b: "newinfo = Inr info" "body = Inr input"
      "text_to_int C (param info ''id'') = Some jid"
      "first_row (putInfoQuery (store ?t) jid) = Inr stored"
      and eq: "?out = Update_mutate C info stored input url t2"
    from assms eq have R: "Reply (Update_mutate C info stored input url t2)
        = Some (Written StatusOK alerts (Some job))" by simp
    have jid: "jid = int (pi_id stored)"
      by (rule putInfoQuery_row[OF first_row_Inr(1)[OF b(4)]]) simp
    show ?thesis
    proof (rule Update_mutate_success[OF R])
      fix ps start ttl rest db1 db2 col ds job_url job_start
      assume m: "Parameters input = Some ps"
        "text_to_int C (TrimSuffix (TrimPrefix ps ''TTL:'') ''h'') = Some ttl"
        "updateQuery (store t2) (AssetURL input) ttl start (pi_id stored) = Inr (job # rest, db1)"
        "revalQuery col (ByXMLID ds) db1 = Inr db2"
        "\<not> RolledBack (Update_mutate C info stored input url t2) \<Longrightarrow>
         Committed (Update_mutate C info stored input url t2)
           = db2\<lparr>log := log (Committed (Update_mutate C info stored input url t2))\<rparr>"
      have s1: "\<forall>n. ps = ''TTL:'' @ n @ ''h'' \<longrightarrow> text_to_int C n = Some ttl"
        using m(2) strip_TTL by auto
      have s2: "(\<forall>m. ps \<noteq> ''TTL:'' @ m) \<and> (\<forall>m. ps \<noteq> m @ ''h'') \<longrightarrow> text_to_int C ps = Some ttl"
        using m(2) strip_plain[of ps] by auto
      show ?thesis
      proof (rule updateQuery_Inr[OF m(3)])
        fix u row
        assume u: "ID job = Some (pi_id stored)" "Parameters job = Some (ttl_parameters ttl)"
          "row \<in> set (invalidation (store t2))" "inv_id row = pi_id stored"
          "db1 = (store t2)\<lparr>invalidation := map (\<lambda>j. if inv_id j = pi_id stored
                    then j\<lparr>inv_asset_url := u, inv_ttl_hr := ttl, inv_start_time := start\<rparr> else j)
                  (invalidation (store t2))\<rparr>"
        have rows: "(\<exists>r \<in> set (invalidation (Committed ?out)). inv_id r = pi_id stored)
            \<and> (\<forall>r \<in> set (invalidation (Committed ?out)). inv_id r = pi_id stored \<longrightarrow> inv_ttl_hr r = ttl)"
          if nr: "\<not> RolledBack ?out"
        proof -
          have "invalidation (Committed ?out) = invalidation db1"
            using same_but_log(1)[OF m(5)] same_but_server(1)[OF revalQuery_frame[OF m(4)]] eq nr by simp
          then have inv: "invalidation (Committed ?out)
              = map (\<lambda>j. if inv_id j = pi_id stored
                      then j\<lparr>inv_asset_url := u, inv_ttl_hr := ttl, inv_start_time := start\<rparr> else j)
                    (invalidation (store t2))"
            by (simp add: u(5))
          have ex: "\<exists>r \<in> set (invalidation (Committed ?out)). inv_id r = pi_id stored"
            unfolding inv using u(3,4)
            by (intro bexI[of _ "row\<lparr>inv_asset_url := u, inv_ttl_hr := ttl, inv_start_time := start\<rparr>"]) auto
          have al: "\<forall>r \<in> set (invalidation (Committed ?out)).
                    inv_id r = pi_id stored \<longrightarrow> inv_ttl_hr r = ttl"
            unfolding inv by auto
          show ?thesis using ex al by simp
        qed
        show ?thesis
          using b(1,2,3) jid m(1,2) s1 s2 u(1,2) rows
          by (intro exI[of _ info] exI[of _ input] exI[of _ ps] exI[of _ ttl] exI[of _ "pi_id stored"])
             (simp add: ttl_parameters_def)
      qed
    qed
  qed
qed

theorem Update_ttl_from_parameters_witness:
  "(\<exists>alerts job.
      Reply (Update C0 (Inr (info0 ann id1))
               (Inr (payload0 ''http://origin.example/new'' ''TTL:48h'' 200)) 10 (begin_tx db1 []))
        = Some (Written StatusOK alerts (Some job))
    \<and> ID job = Some 1 \<and> Parameters job = Some ''TTL:48h'')
   \<and> map inv_ttl_hr (invalidation (Committed (Update C0 (Inr (info0 ann id1))
               (Inr (payload0 ''http://origin.example/new'' ''TTL:48h'' 200)) 10 (begin_tx db1 []))))
        = [48]
   \<and> map inv_ttl_hr (invalidation (Committed (Update C0 (Inr (info0 ann id1))
               (Inr (payload0 ''http://origin.example/new'' ''TTL:7h'' 200)) 10 (begin_tx db1 []))))
        = [7]
   \<and> map inv_ttl_hr (invalidation (Committed (Update C0 (Inr (info0 ann id1))
               (Inr (payload0 ''http://origin.example/new'' ''120'' 200)) 10 (begin_tx db1 []))))
        = [120]"
proof -
  let ?body = "Inr (payload0 ''http://origin.example/new'' ''TTL:48h'' 200) :: string + InvalidationJob"
  let ?out = "Update C0 (Inr (info0 ann id1)) ?body 10 (begin_tx db1 [])"
  have "case Reply ?out of Some (Written code alerts (Some job)) \<Rightarrow> code = StatusOK | _ \<Rightarrow> False"
    by code_simp
  then obtain alerts job where h: "Reply ?out = Some (Written StatusOK alerts (Some job))"
    by (auto split: option.splits reply.splits)
  have nr: "\<not> RolledBack ?out" by code_simp
  from Update_ttl_from_parameters[OF h] nr obtain info input ps ttl jid where
    i: "Inr (info0 ann id1) = (Inr info :: (nat \<times> string option) + APIInfo)"
      "?body = Inr input" "Parameters input = Some ps"
      "text_to_int C0 (param info ''id'') = Some (int jid)" "ID job = Some jid"
      "\<forall>n. ps = ''TTL:'' @ n @ ''h'' \<longrightarrow> text_to_int C0 n = Some ttl"
      "Parameters job = Some (''TTL:'' @ show_int ttl @ ''h'')"
      "\<forall>row \<in> set (invalidation (Committed ?out)). inv_id row = jid \<longrightarrow> inv_ttl_hr row = ttl"
    by blast
  from i(2,3) have ps: "ps = ''TTL:'' @ ''48'' @ ''h''" by (auto simp: payload0_def)
  have "text_to_int C0 ''48'' = Some 48" by code_simp
  with i(6) ps have ttl: "ttl = 48" by auto
  have "text_to_int C0 (param (info0 ann id1) ''id'') = Some 1" by code_simp
  with i(1,4) have jid: "jid = 1" by auto
  have sh: "''TTL:'' @ show_int 48 @ ''h'' = ''TTL:48h''" by code_simp
  have ids: "map inv_id (invalidation (Committed ?out)) = [1]" by code_simp
  have rows: "map inv_ttl_hr (invalidation (Committed ?out)) = [48]"
  proof -
    from ids obtain r where r: "invalidation (Committed ?out) = [r]" "inv_id r = 1"
      by (auto simp: map_eq_Cons_conv)
    with i(8) jid ttl show ?thesis by simp
  qed
  have r7: "map inv_ttl_hr (invalidation (Committed (Update C0 (Inr (info0 ann id1))
               (Inr (payload0 ''http://origin.example/new'' ''TTL:7h'' 200)) 10 (begin_tx db1 []))))
        = [7]" by code_simp
  have r120: "map inv_ttl_hr (invalidation (Committed (Update C0 (Inr (info0 ann id1))
               (Inr (payload0 ''http://origin.example/new'' ''120'' 200)) 10 (begin_tx db1 []))))
        = [120]" by code_simp
  show ?thesis using h i(5,7) jid ttl sh rows r7 r120 by auto
qed

section \<open>Update of a job that has started\<close>

text \<open>
  C3, as the code has it. An Update of a job whose stored start time is strictly before now never
  succeeds and leaves the store as it was, whatever the payload: the reply is an error with
  status 400, 404, 405 or 500. The payload is checked before the start time: for a caller
  that passes the tenancy checks, without a store failure, the status is 405 when the
  payload is decoded, passes its validation and has an asset URL that starts with the
  origin, and it is 400 when the payload is malformed, fails its validation or has an
  asset URL that does not start with the origin.
\<close>

theorem Update_started_job:
  fixes body :: "string + InvalidationJob" and fs :: "stmt list"
  assumes "text_to_int C (param info ''id'') = Some jid"
    and "first_row (putInfoQuery db jid) = Inr stored"
    and "pi_start_time stored < now"
  defines "out \<equiv> Update C (Inr info) body now (begin_tx db fs)"
  shows "Committed out = db
    \<and> (\<forall>r. Reply out = Some r \<longrightarrow>
          (\<exists>code ue. r = HandledErr code ue
             \<and> code \<in> {StatusBadRequest, StatusNotFound, StatusMethodNotAllowed, StatusInternalServerError}))
    \<and> (no_gate_failure fs
        \<and> tenancy_allows C (User info) db (selectDSTenant db (ByID (pi_dsid stored)))
        \<and> tenancy_allows C (User info) db (selectUserTenant db (ByUsername (pi_createdBy stored)))
       \<longrightarrow> (\<forall>input url. body = Inr input \<and> ValidateJob C input = None \<and> AssetURL input = Some url
                \<and> HasPrefix url (pi_OFQDN stored)
              \<longrightarrow> Reply out = Some (HandledErr StatusMethodNotAllowed
                                      (Some ''Cannot modify a job that has already started!'')))
          \<and> ((\<exists>err. body = Inl err)
              \<or> (\<exists>input. body = Inr input
                    \<and> (ValidateJob C input \<noteq> None
                       \<or> (\<exists>url. AssetURL input = Some url \<and> \<not> HasPrefix url (pi_OFQDN stored))))
              \<longrightarrow> (\<exists>ue. Reply out = Some (HandledErr StatusBadRequest ue))))"
proof -
  let ?t = "begin_tx db fs"
  have bt: "begun ?t = db" "store ?t = db" "failing ?t = fs" by (simp_all add: begin_tx_def)
  have general: "Committed out = db
    \<and> (\<forall>r. Reply out = Some r \<longrightarrow>
          (\<exists>code ue. r = HandledErr code ue
             \<and> code \<in> {StatusBadRequest, StatusNotFound, StatusMethodNotAllowed, StatusInternalServerError}))"
  proof (cases rule: Update_cases[of C info body now ?t])
    case (refused t' code ue)
    then show ?thesis using bt by (auto simp: out_def HandleErr_def)
  next
    case (found jid' stored')
    with assms(1,2) bt have s: "stored' = stored" by simp
    show ?thesis
    proof (cases rule: Update_authorize_cases[of C info stored body now "issued PutInfo ?t"])
      case (refused t' code ue)
      then show ?thesis using found(4) s bt by (auto simp: out_def HandleErr_def issued_def)
    next
      case (passed t')
      then have "out = Update_validate C info stored body now t'"
        using found(4) s by (simp add: out_def)
      then show ?thesis
        using passed(2,3) bt Update_validate_started[OF assms(3), of C info body t']
        by (auto simp: end_defs issued_def split: sum.splits option.splits)
    qed
  qed
  have gate: "Reply out = Reply (Update_validate C info stored body now t')"
    if g: "no_gate_failure fs"
      "tenancy_allows C (User info) db (selectDSTenant db (ByID (pi_dsid stored)))"
      "tenancy_allows C (User info) db (selectUserTenant db (ByUsername (pi_createdBy stored)))"
      and t': "t' = issued TenantCheck (issued SelectUserTenant (issued TenantCheck
                    (issued SelectDSTenant (issued PutInfo ?t))))"
    for t'
  proof -
    have "out = Update_authorize C info stored body now (issued PutInfo ?t)"
      using assms(1,2) g(1)
      by (simp add: out_def Update_def query_def begin_tx_def no_gate_failure_def)
    also have "\<dots> = Update_validate C info stored body now t'"
      unfolding t'
      by (rule Update_authorize_passes)
         (use g in \<open>auto simp: no_gate_failure_def issued_def begin_tx_def\<close>)
    finally show ?thesis by simp
  qed
  show ?thesis
    using general gate[OF _ _ _ refl] Update_validate_started[OF assms(3), of C info body]
    by (auto simp: end_defs split: sum.splits option.splits)
qed

theorem Update_started_job_counterexample:
  "map pi_start_time (putInfoQuery db1 1) = [100] \<and> (100::int) \<le> 150
   \<and> Reply (Update C0 (Inr (info0 ann id1))
              (Inr (payload0 ''ftp://elsewhere/new'' ''TTL:48h'' 200)) 150 (begin_tx db1 []))
       = Some (HandledErr StatusBadRequest
           (Some ''Cannot set asset URL that does not start with Delivery Service origin URL: http://origin.example''))
   \<and> Reply (Update C0 (Inr (info0 ann id1)) (Inl ''unexpected end of JSON input'') 150 (begin_tx db1 []))
       = Some (HandledErr StatusBadRequest (Some ''Unable to parse input: unexpected end of JSON input''))
   \<and> (100::int) \<le> 100
   \<and> map_option status_of (Reply (Update C0 (Inr (info0 ann id1))
              (Inr (payload0 ''http://origin.example/new'' ''TTL:48h'' 200)) 100 (begin_tx db1 [])))
       = Some StatusOK
   \<and> map (\<lambda>j. (inv_asset_url j, inv_ttl_hr j, inv_start_time j))
        (invalidation (Committed (Update C0 (Inr (info0 ann id1))
              (Inr (payload0 ''http://origin.example/new'' ''TTL:48h'' 200)) 100 (begin_tx db1 []))))
       = [(''http://origin.example/new'', 48, 200)]
   \<and> map (\<lambda>j. (inv_asset_url j, inv_ttl_hr j, inv_start_time j)) (invalidation db1)
       = [(''http://origin.example/path'', 4, 100)]"
  by code_simp

theorem Update_started_job_witness:
  "Committed (Update C0 (Inr (info0 ann id1))
      (Inr (payload0 ''http://origin.example/new'' ''TTL:48h'' 200)) 150 (begin_tx db1 [])) = db1
   \<and> Reply (Update C0 (Inr (info0 ann id1))
      (Inr (payload0 ''http://origin.example/new'' ''TTL:48h'' 200)) 150 (begin_tx db1 []))
       = Some (HandledErr StatusMethodNotAllowed (Some ''Cannot modify a job that has already started!''))"
proof -
  define stored where "stored = \<lparr>pi_id = 1, pi_createdBy = ''ann'', pi_createdByID = 7, pi_dsid = 5,
     pi_dsxmlid = ''ds5'', pi_assetURL = ''http://origin.example/path'', pi_parameters = ''TTL:4h'',
     pi_start_time = 100, pi_OFQDN = ''http://origin.example''\<rparr>"
  have h1: "text_to_int C0 (param (info0 ann id1) ''id'') = Some 1" by code_simp
  have h2: "first_row (putInfoQuery db1 1) = Inr stored" unfolding stored_def by code_simp
  have h3: "pi_start_time stored < 150" by (simp add: stored_def)
  have g: "no_gate_failure []"
    "tenancy_allows C0 (User (info0 ann id1)) db1 (selectDSTenant db1 (ByID (pi_dsid stored)))"
    "tenancy_allows C0 (User (info0 ann id1)) db1 (selectUserTenant db1 (ByUsername (pi_createdBy stored)))"
    unfolding stored_def by code_simp+
  have p: "ValidateJob C0 (payload0 ''http://origin.example/new'' ''TTL:48h'' 200) = None"
    "AssetURL (payload0 ''http://origin.example/new'' ''TTL:48h'' 200) = Some ''http://origin.example/new''"
    "HasPrefix ''http://origin.example/new'' (pi_OFQDN stored)"
    unfolding stored_def by code_simp+
  from Update_started_job[OF h1 h2 h3, of "Inr (payload0 ''http://origin.example/new'' ''TTL:48h'' 200)" "[]"]
    g p show ?thesis by blast
qed

section \<open>The asset URL and the origin\<close>

lemma digit_not_colon: "digit n \<noteq> CHR '':''"
proof -
  have "n mod 10 < length ''0123456789''" by simp
  then have "''0123456789'' ! (n mod 10) \<in> set ''0123456789''" by (rule nth_mem)
  then show ?thesis unfolding digit_def by auto
qed

lemma show_nat_snoc: "\<exists>ds. show_nat n = ds @ [digit n]"
  by (subst show_nat.simps) auto

lemma rtrim_port: "rtrim ('':'' @ show_nat p) CHR '':'' = '':'' @ show_nat p"
proof -
  obtain ds where "show_nat p = ds @ [digit p]" using show_nat_snoc by blast
  then show ?thesis by (simp add: rtrim_def digit_not_colon)
qed

lemma origin_text_eq:
  "origin_text org = o_protocol org @ ''://'' @ o_fqdn org
      @ (case o_port org of None \<Rightarrow> [] | Some p \<Rightarrow> '':'' @ show_nat p)"
proof (cases "o_port org")
  case None
  then show ?thesis by (simp add: origin_text_def rtrim_def)
next
  case (Some p)
  then show ?thesis using rtrim_port[of p] by (simp add: origin_text_def)
qed

lemma Update_validate_no_prefix:
  assumes "AssetURL input = Some url" "\<not> HasPrefix url (pi_OFQDN stored)"
  shows "\<exists>ue. Update_validate C info stored (Inr input) now t = HandleErr t StatusBadRequest ue"
  using assms by (auto simp: Update_validate_def split: option.splits)

text \<open>
  C2, as the code has it. The job that a successful Create returns has as asset URL the
  text \<^verbatim>\<open>scheme://fqdn[:port]\<close> of a primary origin of the delivery service of the payload,
  followed by the path of the payload; unless the transaction is rolled back, the row
  that the request leaves in the store has it too. The job that a successful Update
  returns has an asset URL that starts with the text of a primary origin of the delivery
  service of the job that the request names, and unless the transaction is rolled back so
  has every row of the job. An Update whose payload has an asset URL that does not start
  with the origin of the stored job ends in an error and leaves the store as it was; the
  error is a bad request when the caller passes the tenancy checks without a store
  failure, and the status of the authorization gate, which comes first, otherwise.
\<close>

theorem assetURL_starts_with_origin:
  "(Reply (Create C newinfo body now (begin_tx db fs)) = Some (Written StatusOK alerts (Some job)) \<longrightarrow>
      (\<exists>input dsid regex org url.
          body = Inr input \<and> DSID C input = Inr dsid \<and> Regex input = Some regex
        \<and> org \<in> set (origin db) \<and> o_deliveryservice org = dsid \<and> o_is_primary org
        \<and> url = o_protocol org @ ''://'' @ o_fqdn org
                  @ (case o_port org of None \<Rightarrow> [] | Some p \<Rightarrow> '':'' @ show_nat p) @ regex
        \<and> AssetURL job = Some url
        \<and> (\<not> RolledBack (Create C newinfo body now (begin_tx db fs)) \<longrightarrow>
             (\<exists>row \<in> set (invalidation (Committed (Create C newinfo body now (begin_tx db fs)))).
                ID job = Some (inv_id row) \<and> inv_asset_url row = url
              \<and> inv_job_deliveryservice row = dsid))))
 \<and> (Reply (Update C newinfo' body' now (begin_tx db fs)) = Some (Written StatusOK alerts' (Some job')) \<longrightarrow>
      (\<exists>info stored j org url rest.
          newinfo' = Inr info \<and> text_to_int C (param info ''id'') = Some (int (pi_id stored))
        \<and> first_row (putInfoQuery db (int (pi_id stored))) = Inr stored
        \<and> j \<in> set (invalidation db) \<and> inv_id j = pi_id stored
        \<and> inv_job_deliveryservice j = pi_dsid stored
        \<and> org \<in> set (origin db) \<and> o_deliveryservice org = pi_dsid stored \<and> o_is_primary org
        \<and> ID job' = Some (pi_id stored) \<and> AssetURL job' = Some url
        \<and> url = o_protocol org @ ''://'' @ o_fqdn org
                  @ (case o_port org of None \<Rightarrow> [] | Some p \<Rightarrow> '':'' @ show_nat p) @ rest
        \<and> (\<not> RolledBack (Update C newinfo' body' now (begin_tx db fs)) \<longrightarrow>
             (\<forall>row \<in> set (invalidation (Committed (Update C newinfo' body' now (begin_tx db fs)))).
                inv_id row = pi_id stored \<longrightarrow> inv_asset_url row = url))))
 \<and> (text_to_int C (param info'' ''id'') = Some jid'' \<and> first_row (putInfoQuery db jid'') = Inr stored''
      \<and> AssetURL input'' = Some url'' \<and> (\<forall>rest. url'' \<noteq> pi_OFQDN stored'' @ rest) \<longrightarrow>
      (\<exists>org \<in> set (origin db). o_deliveryservice org = pi_dsid stored'' \<and> o_is_primary org
          \<and> pi_OFQDN stored'' = o_protocol org @ ''://'' @ o_fqdn org
                  @ (case o_port org of None \<Rightarrow> [] | Some p \<Rightarrow> '':'' @ show_nat p))
    \<and> Committed (Update C (Inr info'') (Inr input'') now (begin_tx db fs)) = db
    \<and> (\<exists>code ue. Reply (Update C (Inr info'') (Inr input'') now (begin_tx db fs)) = Some (HandledErr code ue)
          \<and> (no_gate_failure fs
              \<and> tenancy_allows C (User info'') db (selectDSTenant db (ByID (pi_dsid stored'')))
              \<and> tenancy_allows C (User info'') db (selectUserTenant db (ByUsername (pi_createdBy stored'')))
             \<longrightarrow> code = StatusBadRequest)))"
proof (rule conjI[OF _ conjI]; rule impI)
  let ?t = "begin_tx db fs"
  let ?out = "Create C newinfo body now ?t"
  assume R: "Reply ?out = Some (Written StatusOK alerts (Some job))"
  show "\<exists>input dsid regex org url.
          body = Inr input \<and> DSID C input = Inr dsid \<and> Regex input = Some regex
        \<and> org \<in> set (origin db) \<and> o_deliveryservice org = dsid \<and> o_is_primary org
        \<and> url = o_protocol org @ ''://'' @ o_fqdn org
                  @ (case o_port org of None \<Rightarrow> [] | Some p \<Rightarrow> '':'' @ show_nat p) @ regex
        \<and> AssetURL job = Some url
        \<and> (\<not> RolledBack ?out \<longrightarrow>
             (\<exists>row \<in> set (invalidation (Committed ?out)).
                ID job = Some (inv_id row) \<and> inv_asset_url row = url
              \<and> inv_job_deliveryservice row = dsid))"
  proof (rule Create_success[OF R])
    fix info input dsid ttl t3
    assume b: "body = Inr input" "DSID C input = Inr dsid"
      and eq: "?out = Create_insert C info input dsid ttl now t3"
      and st: "store t3 = store ?t"
    from R eq have R': "Reply (Create_insert C info input dsid ttl now t3)
        = Some (Written StatusOK alerts (Some job))" by simp
    show ?thesis
    proof (rule Create_insert_success[OF R'])
      fix regex start db1 db2 col url
      assume rg: "Regex input = Some regex"
        and ins: "insertQuery (store t3) (int ttl) dsid regex start now (UID (User info)) dsid ''REFRESH''
                     = Inr (job, db1)"
        and rv: "revalQuery col (ByID dsid) db1 = Inr db2"
        and cm: "\<not> RolledBack (Create_insert C info input dsid ttl now t3) \<Longrightarrow>
                 Committed (Create_insert C info input dsid ttl now t3)
                   = db2\<lparr>log := log (Committed (Create_insert C info input dsid ttl now t3))\<rparr>"
      have inv: "invalidation (Committed ?out) = invalidation db1" if "\<not> RolledBack ?out"
        using same_but_log(1)[OF cm] same_but_server(1)[OF revalQuery_frame[OF rv]] eq that by simp
      show ?thesis
      proof (rule insertQuery_Inr[OF ins])
        fix org
        assume o: "org \<in> set (origin (store t3))" "o_deliveryservice org = dsid" "o_is_primary org"
          "AssetURL job = Some (origin_text org @ regex)"
          "ID job = Some (Suc (invalidation_id_seq (store t3)))"
          and d: "db1 = (store t3)\<lparr>invalidation := invalidation (store t3) @
               [\<lparr>inv_id = Suc (invalidation_id_seq (store t3)), inv_ttl_hr = int ttl,
                 inv_asset_url = origin_text org @ regex, inv_start_time = start,
                 inv_entered_time = now, inv_job_user = UID (User info),
                 inv_job_deliveryservice = dsid, inv_invalidation_type = ''REFRESH''\<rparr>],
             invalidation_id_seq := Suc (invalidation_id_seq (store t3))\<rparr>"
        let ?row = "\<lparr>inv_id = Suc (invalidation_id_seq (store t3)), inv_ttl_hr = int ttl,
                 inv_asset_url = origin_text org @ regex, inv_start_time = start,
                 inv_entered_time = now, inv_job_user = UID (User info),
                 inv_job_deliveryservice = dsid, inv_invalidation_type = ''REFRESH''\<rparr>"
        have row: "?row \<in> set (invalidation (Committed ?out))" if "\<not> RolledBack ?out"
          unfolding inv[OF that] by (subst d) simp
        have og: "org \<in> set (origin db)" using o(1) st by (simp add: begin_tx_def)
        have rows: "\<not> RolledBack ?out \<longrightarrow>
             (\<exists>row \<in> set (invalidation (Committed ?out)).
                ID job = Some (inv_id row) \<and> inv_asset_url row = origin_text org @ regex
              \<and> inv_job_deliveryservice row = dsid)"
          using row o(5) by (auto intro!: bexI[of _ ?row])
        show ?thesis
          using b rg og o(2-4) rows origin_text_eq[of org]
          by (intro exI[of _ input] exI[of _ dsid] exI[of _ regex] exI[of _ org]
                exI[of _ "origin_text org @ regex"]) simp
      qed
    qed
  qed
next
  let ?t = "begin_tx db fs"
  let ?out = "Update C newinfo' body' now ?t"
  assume R: "Reply ?out = Some (Written StatusOK alerts' (Some job'))"
  show "\<exists>info stored j org url rest.
          newinfo' = Inr info \<and> text_to_int C (param info ''id'') = Some (int (pi_id stored))
        \<and> first_row (putInfoQuery db (int (pi_id stored))) = Inr stored
        \<and> j \<in> set (invalidation db) \<and> inv_id j = pi_id stored
        \<and> inv_job_deliveryservice j = pi_dsid stored
        \<and> org \<in> set (origin db) \<and> o_deliveryservice org = pi_dsid stored \<and> o_is_primary org
        \<and> ID job' = Some (pi_id stored) \<and> AssetURL job' = Some url
        \<and> url = o_protocol org @ ''://'' @ o_fqdn org
                  @ (case o_port org of None \<Rightarrow> [] | Some p \<Rightarrow> '':'' @ show_nat p) @ rest
        \<and> (\<not> RolledBack ?out \<longrightarrow>
             (\<forall>row \<in> set (invalidation (Committed ?out)).
                inv_id row = pi_id stored \<longrightarrow> inv_asset_url row = url))"
  proof (rule Update_success[OF R])
    fix info jid stored t2 input url
    assume a: "newinfo' = Inr info" "text_to_int C (param info ''id'') = Some jid"
      "first_row (putInfoQuery (store ?t) jid) = Inr stored"
      "AssetURL input = Some url" "HasPrefix url (pi_OFQDN stored)"
      and eq: "?out = Update_mutate C info stored input url t2"
      and st: "store t2 = store ?t"
    have fr: "first_row (putInfoQuery db jid) = Inr stored" using a(3) by (simp add: begin_tx_def)
    from R eq have R': "Reply (Update_mutate C info stored input url t2)
        = Some (Written StatusOK alerts' (Some job'))" by simp
    from a(5) obtain rest where rest: "url = pi_OFQDN stored @ rest"
      unfolding HasPrefix_iff by blast
    show ?thesis
    proof (rule putInfoQuery_row[OF first_row_Inr(1)[OF fr]])
      fix j org u d
      assume po: "j \<in> set (invalidation db)" "int (inv_id j) = jid"
        "org \<in> set (origin db)" "o_deliveryservice org = inv_job_deliveryservice j"
        "o_is_primary org" "pi_id stored = inv_id j" "pi_dsid stored = inv_job_deliveryservice j"
        "pi_OFQDN stored = origin_text org"
      show ?thesis
      proof (rule Update_mutate_success[OF R'])
        fix ps start ttl rest' db1 db2 col ds job_url job_start
        assume m: "updateQuery (store t2) (AssetURL input) ttl start (pi_id stored) = Inr (job' # rest', db1)"
          "revalQuery col (ByXMLID ds) db1 = Inr db2"
          "\<not> RolledBack (Update_mutate C info stored input url t2) \<Longrightarrow>
           Committed (Update_mutate C info stored input url t2)
             = db2\<lparr>log := log (Committed (Update_mutate C info stored input url t2))\<rparr>"
        have inv: "invalidation (Committed ?out) = invalidation db1" if "\<not> RolledBack ?out"
          using same_but_log(1)[OF m(3)] same_but_server(1)[OF revalQuery_frame[OF m(2)]] eq that by simp
        show ?thesis
        proof (rule updateQuery_Inr[OF m(1)])
          fix u' row
          assume u: "AssetURL input = Some u'" "AssetURL job' = Some u'" "ID job' = Some (pi_id stored)"
            "db1 = (store t2)\<lparr>invalidation := map (\<lambda>j. if inv_id j = pi_id stored
                then j\<lparr>inv_asset_url := u', inv_ttl_hr := ttl, inv_start_time := start\<rparr> else j)
              (invalidation (store t2))\<rparr>"
          from u(1) a(4) have uu: "u' = url" by simp
          have rows: "\<not> RolledBack ?out \<longrightarrow> (\<forall>row \<in> set (invalidation (Committed ?out)).
              inv_id row = pi_id stored \<longrightarrow> inv_asset_url row = url)"
          proof
            assume nr: "\<not> RolledBack ?out"
            show "\<forall>row \<in> set (invalidation (Committed ?out)).
              inv_id row = pi_id stored \<longrightarrow> inv_asset_url row = url"
              unfolding inv[OF nr] by (subst u(4)) (auto simp: uu)
          qed
          have url: "url = o_protocol org @ ''://'' @ o_fqdn org
                  @ (case o_port org of None \<Rightarrow> [] | Some p \<Rightarrow> '':'' @ show_nat p) @ rest"
            using rest po(8) origin_text_eq[of org] by simp
          show ?thesis
            using a(1,2) fr po(1-7) u(2,3) uu rows url
            by (intro exI[of _ info] exI[of _ stored] exI[of _ j] exI[of _ org] exI[of _ url]
                  exI[of _ rest]) auto
        qed
      qed
    qed
  qed
next
  let ?t = "begin_tx db fs"
  let ?out = "Update C (Inr info'') (Inr input'') now ?t"
  assume a: "text_to_int C (param info'' ''id'') = Some jid'' \<and> first_row (putInfoQuery db jid'') = Inr stored''
      \<and> AssetURL input'' = Some url'' \<and> (\<forall>rest. url'' \<noteq> pi_OFQDN stored'' @ rest)"
  then have np: "\<not> HasPrefix url'' (pi_OFQDN stored'')" unfolding HasPrefix_iff by blast
  have bt: "begun ?t = db" "store ?t = db" "failing ?t = fs" by (simp_all add: begin_tx_def)
  have og: "\<exists>org \<in> set (origin db). o_deliveryservice org = pi_dsid stored'' \<and> o_is_primary org
          \<and> pi_OFQDN stored'' = o_protocol org @ ''://'' @ o_fqdn org
                  @ (case o_port org of None \<Rightarrow> [] | Some p \<Rightarrow> '':'' @ show_nat p)"
  proof (rule putInfoQuery_row[OF first_row_Inr(1)[of "putInfoQuery db jid''" stored'']])
    show "first_row (putInfoQuery db jid'') = Inr stored''" using a by simp
    fix j org u d
    assume "org \<in> set (origin db)" "o_deliveryservice org = inv_job_deliveryservice j"
        "o_is_primary org" "pi_dsid stored'' = inv_job_deliveryservice j"
        "pi_OFQDN stored'' = origin_text org"
    then show ?thesis using origin_text_eq[of org] by (intro bexI[of _ org]) auto
  qed
  have general: "Committed ?out = db \<and> (\<exists>code ue. Reply ?out = Some (HandledErr code ue))"
  proof (cases rule: Update_cases[of C info'' "Inr input''" now ?t])
    case (refused t' code ue)
    then show ?thesis using bt by (auto simp: HandleErr_def)
  next
    case (found jid' stored')
    with a bt have s: "stored' = stored''" by simp
    show ?thesis
    proof (cases rule: Update_authorize_cases[of C info'' stored'' "Inr input''" now "issued PutInfo ?t"])
      case (refused t' code ue)
      then show ?thesis using found(4) s bt by (auto simp: HandleErr_def issued_def)
    next
      case (passed t')
      from Update_validate_no_prefix[of input'' url'' stored'' C info'' now t'] a np
      obtain ue where "Update_validate C info'' stored'' (Inr input'') now t' = HandleErr t' StatusBadRequest ue"
        by blast
      then show ?thesis
        using passed found(4) s bt by (auto simp: HandleErr_def issued_def)
    qed
  qed
  have gate: "\<exists>ue. Reply ?out = Some (HandledErr StatusBadRequest ue)"
    if g: "no_gate_failure fs
              \<and> tenancy_allows C (User info'') db (selectDSTenant db (ByID (pi_dsid stored'')))
              \<and> tenancy_allows C (User info'') db (selectUserTenant db (ByUsername (pi_createdBy stored'')))"
  proof -
    let ?t' = "issued TenantCheck (issued SelectUserTenant (issued TenantCheck
                    (issued SelectDSTenant (issued PutInfo ?t))))"
    have "?out = Update_authorize C info'' stored'' (Inr input'') now (issued PutInfo ?t)"
      using a g by (simp add: Update_def query_def begin_tx_def no_gate_failure_def)
    also have "\<dots> = Update_validate C info'' stored'' (Inr input'') now ?t'"
      by (rule Update_authorize_passes)
         (use g in \<open>auto simp: no_gate_failure_def issued_def begin_tx_def\<close>)
    finally show ?thesis
      using Update_validate_no_prefix[of input'' url'' stored'' C info'' now ?t'] a np
      by (auto simp: HandleErr_def)
  qed
  show "(\<exists>org \<in> set (origin db). o_deliveryservice org = pi_dsid stored'' \<and> o_is_primary org
          \<and> pi_OFQDN stored'' = o_protocol org @ ''://'' @ o_fqdn org
                  @ (case o_port org of None \<Rightarrow> [] | Some p \<Rightarrow> '':'' @ show_nat p))
    \<and> Committed ?out = db
    \<and> (\<exists>code ue. Reply ?out = Some (HandledErr code ue)
          \<and> (no_gate_failure fs
              \<and> tenancy_allows C (User info'') db (selectDSTenant db (ByID (pi_dsid stored'')))
              \<and> tenancy_allows C (User info'') db (selectUserTenant db (ByUsername (pi_createdBy stored'')))
             \<longrightarrow> code = StatusBadRequest))"
    using og general gate by auto
qed

text \<open>
  The claim as written fails: the authorization gate comes before the check of the
  prefix. The asset URL of the payload does not start with the origin of the stored job;
  for \<open>bob\<close>, whose tenant is not above that of the delivery service, the answer is
  not-found, and when the tenancy check fails in the store it is an internal error; for
  \<open>ann\<close>, who passes the gate, it is a bad request.
\<close>

theorem assetURL_starts_with_origin_counterexample:
  "map pi_OFQDN (putInfoQuery db1 1) = [''http://origin.example'']
 \<and> AssetURL (payload0 ''ftp://elsewhere/new'' ''TTL:48h'' 200) = Some ''ftp://elsewhere/new''
 \<and> (\<forall>rest. ''ftp://elsewhere/new'' \<noteq> ''http://origin.example'' @ rest)
 \<and> Reply (Update C0 (Inr (info0 bob id1))
             (Inr (payload0 ''ftp://elsewhere/new'' ''TTL:48h'' 200)) 10 (begin_tx db1 []))
      = Some (HandledErr StatusNotFound (Some ''No such Delivery Service!''))
 \<and> map_option status_of (Reply (Update C0 (Inr (info0 ann id1))
             (Inr (payload0 ''ftp://elsewhere/new'' ''TTL:48h'' 200)) 10 (begin_tx db1 [TenantCheck])))
      = Some StatusInternalServerError
 \<and> map_option status_of (Reply (Update C0 (Inr (info0 ann id1))
             (Inr (payload0 ''ftp://elsewhere/new'' ''TTL:48h'' 200)) 10 (begin_tx db1 [])))
      = Some StatusBadRequest
 \<and> StatusNotFound \<noteq> StatusBadRequest \<and> StatusInternalServerError \<noteq> StatusBadRequest"
proof -
  have "\<forall>rest. ''ftp://elsewhere/new'' \<noteq> ''http://origin.example'' @ rest" by simp
  moreover have "map pi_OFQDN (putInfoQuery db1 1) = [''http://origin.example'']" by code_simp
  moreover have "AssetURL (payload0 ''ftp://elsewhere/new'' ''TTL:48h'' 200) = Some ''ftp://elsewhere/new''"
    by code_simp
  moreover have "Reply (Update C0 (Inr (info0 bob id1))
             (Inr (payload0 ''ftp://elsewhere/new'' ''TTL:48h'' 200)) 10 (begin_tx db1 []))
      = Some (HandledErr StatusNotFound (Some ''No such Delivery Service!''))" by code_simp
  moreover have "map_option status_of (Reply (Update C0 (Inr (info0 ann id1))
             (Inr (payload0 ''ftp://elsewhere/new'' ''TTL:48h'' 200)) 10 (begin_tx db1 [TenantCheck])))
      = Some StatusInternalServerError" by code_simp
  moreover have "map_option status_of (Reply (Update C0 (Inr (info0 ann id1))
             (Inr (payload0 ''ftp://elsewhere/new'' ''TTL:48h'' 200)) 10 (begin_tx db1 [])))
      = Some StatusBadRequest" by code_simp
  moreover have "StatusNotFound \<noteq> StatusBadRequest \<and> StatusInternalServerError \<noteq> StatusBadRequest"
    by code_simp
  ultimately show ?thesis by blast
qed

theorem assetURL_starts_with_origin_witness:
  "(\<exists>alerts job.
       Reply (Create C0 (Inr (info0 ann Map.empty)) (Inr (input0 ''/path'' 100 4)) 10 (begin_tx db2 []))
         = Some (Written StatusOK alerts (Some job))
     \<and> AssetURL job = Some ''https://origin.example:81/path''
     \<and> (\<exists>org \<in> set (origin db2). \<exists>url. AssetURL job = Some url
           \<and> url = o_protocol org @ ''://'' @ o_fqdn org
                  @ (case o_port org of None \<Rightarrow> [] | Some p \<Rightarrow> '':'' @ show_nat p) @ ''/path''))
 \<and> map inv_asset_url (invalidation (Committed
       (Create C0 (Inr (info0 ann Map.empty)) (Inr (input0 ''/path'' 100 4)) 10 (begin_tx db2 []))))
      = [''http://origin.example/path'', ''https://origin.example:81/path'']
 \<and> (\<exists>alerts job.
       Reply (Update C0 (Inr (info0 ann id1))
                (Inr (payload0 ''https://origin.example:81/new'' ''TTL:48h'' 200)) 10 (begin_tx db2 []))
         = Some (Written StatusOK alerts (Some job))
     \<and> AssetURL job = Some ''https://origin.example:81/new''
     \<and> (\<exists>org \<in> set (origin db2). \<exists>url rest. AssetURL job = Some url
           \<and> url = o_protocol org @ ''://'' @ o_fqdn org
                  @ (case o_port org of None \<Rightarrow> [] | Some p \<Rightarrow> '':'' @ show_nat p) @ rest))
 \<and> map inv_asset_url (invalidation (Committed
       (Update C0 (Inr (info0 ann id1))
                (Inr (payload0 ''https://origin.example:81/new'' ''TTL:48h'' 200)) 10 (begin_tx db2 []))))
      = [''https://origin.example:81/new'']
 \<and> (\<forall>rest. ''https://origin.example/new'' \<noteq> ''https://origin.example:81'' @ rest)
 \<and> Committed (Update C0 (Inr (info0 ann id1))
                (Inr (payload0 ''https://origin.example/new'' ''TTL:48h'' 200)) 10 (begin_tx db2 [])) = db2
 \<and> (\<exists>ue. Reply (Update C0 (Inr (info0 ann id1))
                (Inr (payload0 ''https://origin.example/new'' ''TTL:48h'' 200)) 10 (begin_tx db2 []))
         = Some (HandledErr StatusBadRequest ue))"
proof -
  let ?c = "Create C0 (Inr (info0 ann Map.empty)) (Inr (input0 ''/path'' 100 4)) 10 (begin_tx db2 [])"
  let ?u = "Update C0 (Inr (info0 ann id1))
                (Inr (payload0 ''https://origin.example:81/new'' ''TTL:48h'' 200)) 10 (begin_tx db2 [])"
  let ?b = "Update C0 (Inr (info0 ann id1))
                (Inr (payload0 ''https://origin.example/new'' ''TTL:48h'' 200)) 10 (begin_tx db2 [])"
  define stored where "stored = \<lparr>pi_id = 1, pi_createdBy = ''ann'', pi_createdByID = 7, pi_dsid = 5,
     pi_dsxmlid = ''ds5'', pi_assetURL = ''http://origin.example/path'', pi_parameters = ''TTL:4h'',
     pi_start_time = 100, pi_OFQDN = ''https://origin.example:81''\<rparr>"
  have "case Reply ?c of Some (Written code alerts (Some job)) \<Rightarrow>
          code = StatusOK \<and> AssetURL job = Some ''https://origin.example:81/path'' | _ \<Rightarrow> False"
    by code_simp
  then obtain ca cj where c: "Reply ?c = Some (Written StatusOK ca (Some cj))"
      "AssetURL cj = Some ''https://origin.example:81/path''"
    by (auto split: option.splits reply.splits)
  have "case Reply ?u of Some (Written code alerts (Some job)) \<Rightarrow>
          code = StatusOK \<and> AssetURL job = Some ''https://origin.example:81/new'' | _ \<Rightarrow> False"
    by code_simp
  then obtain ua uj where u: "Reply ?u = Some (Written StatusOK ua (Some uj))"
      "AssetURL uj = Some ''https://origin.example:81/new''"
    by (auto split: option.splits reply.splits)
  have rows: "map inv_asset_url (invalidation (Committed ?c))
      = [''http://origin.example/path'', ''https://origin.example:81/path'']"
    "map inv_asset_url (invalidation (Committed ?u)) = [''https://origin.example:81/new'']"
    by code_simp+
  have np: "\<forall>rest. ''https://origin.example/new'' \<noteq> ''https://origin.example:81'' @ rest" by simp
  have h: "text_to_int C0 (param (info0 ann id1) ''id'') = Some 1"
    "first_row (putInfoQuery db2 1) = Inr stored"
    "AssetURL (payload0 ''https://origin.example/new'' ''TTL:48h'' 200) = Some ''https://origin.example/new''"
    "no_gate_failure []"
    "tenancy_allows C0 (User (info0 ann id1)) db2 (selectDSTenant db2 (ByID (pi_dsid stored)))"
    "tenancy_allows C0 (User (info0 ann id1)) db2 (selectUserTenant db2 (ByUsername (pi_createdBy stored)))"
    unfolding stored_def by code_simp+
  have np': "\<forall>rest. ''https://origin.example/new'' \<noteq> pi_OFQDN stored @ rest"
    using np by (simp add: stored_def)
  have rg: "Regex (input0 ''/path'' 100 4) = Some ''/path''" by code_simp
  note inst = assetURL_starts_with_origin[of C0 "Inr (info0 ann Map.empty)" "Inr (input0 ''/path'' 100 4)"
      10 db2 "[]" ca cj "Inr (info0 ann id1)" "Inr (payload0 ''https://origin.example:81/new'' ''TTL:48h'' 200)"
      ua uj "info0 ann id1" 1 stored "payload0 ''https://origin.example/new'' ''TTL:48h'' 200" "''https://origin.example/new''"]
  from inst c(1) rg have 1: "\<exists>org \<in> set (origin db2). \<exists>url. AssetURL cj = Some url
           \<and> url = o_protocol org @ ''://'' @ o_fqdn org
                  @ (case o_port org of None \<Rightarrow> [] | Some p \<Rightarrow> '':'' @ show_nat p) @ ''/path''"
    by fastforce
  from inst u(1) have 2: "\<exists>org \<in> set (origin db2). \<exists>url rest. AssetURL uj = Some url
           \<and> url = o_protocol org @ ''://'' @ o_fqdn org
                  @ (case o_port org of None \<Rightarrow> [] | Some p \<Rightarrow> '':'' @ show_nat p) @ rest"
    by blast
  from inst h np' have 3: "Committed ?b = db2" "\<exists>ue. Reply ?b = Some (HandledErr StatusBadRequest ue)"
    by blast+
  show ?thesis using c u 1 2 3 rows np by blast
qed

section \<open>Read: the predicate of the query\<close>

lemma Read_query:
  assumes B: "BuildWhereAndOrderByAndPagination E (Params info) queryParamsToSQLCols
                = (where0, orderBy, pagination, qv, errs)"
    and S: "SelectJobs q \<in> set (executed (snd (Read E info h useIMS (begin_tx db fs))))"
  shows "errs = [] \<and> GetUserTenantIDList \<notin> set fs
       \<and> (\<exists>tenants. GetUserTenantIDListTx E db (TenantID (User info)) = Inr tenants)
       \<and> q = readQuery @ Read_where E (Params info) where0 @ orderBy @ pagination"
  using S unfolding Read_def B
  by (auto simp: Let_def query_def issued_def begin_tx_def TryIfModifiedSinceQuery_def
           split: if_splits sum.splits option.splits prod.splits scanned.splits)

lemma Read_max_query:
  assumes B: "BuildWhereAndOrderByAndPagination E (Params info) queryParamsToSQLCols
                = (where0, orderBy, pagination, qv, errs)"
    and S: "SelectMaxLastUpdated q \<in> set (executed (snd (Read E info h useIMS (begin_tx db fs))))"
  shows "q = selectMaxLastUpdatedQuery (Read_where E (Params info) where0)"
  using S unfolding Read_def B
  by (auto simp: Let_def query_def issued_def begin_tx_def TryIfModifiedSinceQuery_def
           split: if_splits sum.splits option.splits prod.splits scanned.splits)

lemma Read_rows:
  assumes B: "BuildWhereAndOrderByAndPagination E (Params info) queryParamsToSQLCols
                = (where0, orderBy, pagination, qv, errs)"
    and T: "GetUserTenantIDListTx E db (TenantID (User info)) = Inr tenants"
    and R: "fst (Read E info h useIMS (begin_tx db fs)) = ReadReturn (Some jobs) None None StatusOK mt"
  shows "\<exists>rows. NamedQuery E db (readQuery @ Read_where E (Params info) where0 @ orderBy @ pagination)
                   ((case Params info ''cdn'' of None \<Rightarrow> qv | Some c \<Rightarrow> qv(''cdn'' \<mapsto> QText c))
                      (''tenants'' \<mapsto> QArray tenants)) = Inr (rows, None)
              \<and> scan_rows rows = Scanned jobs"
  using R T unfolding Read_def B
  by (auto simp: Let_def query_def issued_def begin_tx_def TryIfModifiedSinceQuery_def status_defs
           split: if_splits sum.splits option.splits prod.splits scanned.splits)

lemma Read_where_text:
  "Read_where E params where0 =
     (if where0 = [] then BaseWhere E else where0 @ '' AND'')
       @ '' ds.tenant_id = ANY(:tenants) ''
       @ (if ''maxRevalDurationDays'' \<in> dom params then maxDays_predicate else [])
       @ (if ''cdn'' \<in> dom params
          then '' AND ds.cdn_id = (SELECT id FROM cdn WHERE name = :cdn) '' else [])"
  by (auto simp: Read_where_def Let_def tenants_predicate_def cdn_predicate_def dom_def
           split: option.splits)

text \<open>
  C6, as the code has it. When a Read runs the query of the rows, the filters of the
  caller came from the list of the allowed ones without an error, the tenants that the
  user may see were read from the store, and the text of the query is \<^verbatim>\<open>readQuery\<close>, the
  where clause, the ordering and the pagination; the where clause is the clause of the
  caller's filters (or the base clause when there is none), then the predicate of the
  tenants, then the recency window only when the request has the parameter
  \<^verbatim>\<open>maxRevalDurationDays\<close>, then the predicate of the CDN only when the request has the
  parameter \<^verbatim>\<open>cdn\<close>. The conditional query, when it is run, has the same where clause. The
  jobs of a successful Read are the rows that the store gives for this query with the
  name \<^verbatim>\<open>tenants\<close> bound to the tenants of the user. So the predicate of the tenants is in
  every query, and the recency window is there when the caller asks for it.
\<close>

theorem Read_predicate:
  assumes "SelectJobs q \<in> set (executed (snd (Read E info h useIMS (begin_tx db fs))))"
  shows "\<exists>where0 orderBy pagination qv tenants w.
           BuildWhereAndOrderByAndPagination E (Params info) queryParamsToSQLCols
             = (where0, orderBy, pagination, qv, [])
         \<and> GetUserTenantIDListTx E db (TenantID (User info)) = Inr tenants
         \<and> w = (if where0 = [] then BaseWhere E else where0 @ '' AND'')
                 @ '' ds.tenant_id = ANY(:tenants) ''
                 @ (if ''maxRevalDurationDays'' \<in> dom (Params info) then maxDays_predicate else [])
                 @ (if ''cdn'' \<in> dom (Params info)
                    then '' AND ds.cdn_id = (SELECT id FROM cdn WHERE name = :cdn) '' else [])
         \<and> q = readQuery @ w @ orderBy @ pagination
         \<and> (\<forall>q'. SelectMaxLastUpdated q' \<in> set (executed (snd (Read E info h useIMS (begin_tx db fs))))
                \<longrightarrow> q' = selectMaxLastUpdatedQuery w)
         \<and> (\<forall>jobs mt. fst (Read E info h useIMS (begin_tx db fs)) = ReadReturn (Some jobs) None None StatusOK mt
                \<longrightarrow> (\<exists>rows. NamedQuery E db q
                               ((case Params info ''cdn'' of None \<Rightarrow> qv | Some c \<Rightarrow> qv(''cdn'' \<mapsto> QText c))
                                  (''tenants'' \<mapsto> QArray tenants)) = Inr (rows, None)
                          \<and> scan_rows rows = Scanned jobs))"
proof -
  obtain where0 orderBy pagination qv errs where
    B: "BuildWhereAndOrderByAndPagination E (Params info) queryParamsToSQLCols
          = (where0, orderBy, pagination, qv, errs)"
    by (cases "BuildWhereAndOrderByAndPagination E (Params info) queryParamsToSQLCols") blast
  from Read_query[OF B assms] obtain tenants where
    e: "errs = []" and T: "GetUserTenantIDListTx E db (TenantID (User info)) = Inr tenants"
    and q: "q = readQuery @ Read_where E (Params info) where0 @ orderBy @ pagination"
    by blast
  have m: "\<forall>q'. SelectMaxLastUpdated q' \<in> set (executed (snd (Read E info h useIMS (begin_tx db fs))))
                \<longrightarrow> q' = selectMaxLastUpdatedQuery (Read_where E (Params info) where0)"
    using Read_max_query[OF B] by blast
  have r: "\<forall>jobs mt. fst (Read E info h useIMS (begin_tx db fs)) = ReadReturn (Some jobs) None None StatusOK mt
                \<longrightarrow> (\<exists>rows. NamedQuery E db q
                               ((case Params info ''cdn'' of None \<Rightarrow> qv | Some c \<Rightarrow> qv(''cdn'' \<mapsto> QText c))
                                  (''tenants'' \<mapsto> QArray tenants)) = Inr (rows, None)
                          \<and> scan_rows rows = Scanned jobs)"
    unfolding q using Read_rows[OF B T] by blast
  show ?thesis
    using B e T q m r unfolding Read_where_text
    by (intro exI[of _ where0] exI[of _ orderBy] exI[of _ pagination] exI[of _ qv]
          exI[of _ tenants] exI[of _ "Read_where E (Params info) where0"])
       (simp add: Read_where_text)
qed

text \<open>
  The claim as written fails: the recency window is controlled by the caller. The same
  user reads the same store twice; the request without the parameter
  \<^verbatim>\<open>maxRevalDurationDays\<close> runs a query with the predicate of the tenants alone, and the
  request with the parameter runs it with the recency window.
\<close>

theorem Read_predicate_counterexample:
  "executed (snd (Read E0 (info0 ann Map.empty) None False (begin_tx db1 [])))
     = [GetUserTenantIDList,
        SelectJobs (readQuery @ newline @ ''WHERE ds.tenant_id = ANY(:tenants) '')]
 \<and> fst (Read E0 (info0 ann Map.empty) None False (begin_tx db1 []))
     = ReadReturn (Some []) None None StatusOK (Some zero_time)
 \<and> executed (snd (Read E0 (info0 ann [''maxRevalDurationDays'' \<mapsto> ''1'']) None False (begin_tx db1 [])))
     = [GetUserTenantIDList,
        SelectJobs (readQuery @ newline @ ''WHERE ds.tenant_id = ANY(:tenants) '' @ maxDays_predicate)]
 \<and> maxDays_predicate \<noteq> []"
  by code_simp

theorem Read_predicate_witness:
  "executed (snd (Read E0 (info0 ann [''maxRevalDurationDays'' \<mapsto> ''1'', ''dsId'' \<mapsto> ''5''])
                       (Some 10) True (begin_tx db1 [])))
     = [GetUserTenantIDList,
        SelectMaxLastUpdated (selectMaxLastUpdatedQuery (newline
          @ ''WHERE invalidation.job_deliveryservice=:dsId AND ds.tenant_id = ANY(:tenants) ''
          @ maxDays_predicate)),
        SelectJobs (readQuery @ newline
          @ ''WHERE invalidation.job_deliveryservice=:dsId AND ds.tenant_id = ANY(:tenants) ''
          @ maxDays_predicate)]
 \<and> fst (Read E0 (info0 ann [''maxRevalDurationDays'' \<mapsto> ''1'', ''dsId'' \<mapsto> ''5''])
            (Some 10) True (begin_tx db1 []))
     = ReadReturn (Some []) None None StatusOK (Some 50)
 \<and> (\<exists>where0 orderBy pagination qv tenants.
       BuildWhereAndOrderByAndPagination E0
          (Params (info0 ann [''maxRevalDurationDays'' \<mapsto> ''1'', ''dsId'' \<mapsto> ''5''])) queryParamsToSQLCols
             = (where0, orderBy, pagination, qv, [])
     \<and> GetUserTenantIDListTx E0 db1 (TenantID (User (info0 ann [''maxRevalDurationDays'' \<mapsto> ''1'', ''dsId'' \<mapsto> ''5'']))) = Inr tenants
     \<and> readQuery @ newline
         @ ''WHERE invalidation.job_deliveryservice=:dsId AND ds.tenant_id = ANY(:tenants) ''
         @ maxDays_predicate
       = readQuery @ ((if where0 = [] then BaseWhere E0 else where0 @ '' AND'')
                 @ '' ds.tenant_id = ANY(:tenants) ''
                 @ (if ''maxRevalDurationDays'' \<in> dom (Params (info0 ann [''maxRevalDurationDays'' \<mapsto> ''1'', ''dsId'' \<mapsto> ''5''])) then maxDays_predicate else [])
                 @ (if ''cdn'' \<in> dom (Params (info0 ann [''maxRevalDurationDays'' \<mapsto> ''1'', ''dsId'' \<mapsto> ''5'']))
                    then '' AND ds.cdn_id = (SELECT id FROM cdn WHERE name = :cdn) '' else []))
           @ orderBy @ pagination
     \<and> (\<exists>rows. NamedQuery E0 db1 (readQuery @ newline
         @ ''WHERE invalidation.job_deliveryservice=:dsId AND ds.tenant_id = ANY(:tenants) ''
         @ maxDays_predicate)
            ((case Params (info0 ann [''maxRevalDurationDays'' \<mapsto> ''1'', ''dsId'' \<mapsto> ''5'']) ''cdn'' of
                None \<Rightarrow> qv | Some c \<Rightarrow> qv(''cdn'' \<mapsto> QText c))(''tenants'' \<mapsto> QArray tenants))
              = Inr (rows, None)
          \<and> scan_rows rows = Scanned []))"
proof -
  let ?i = "info0 ann [''maxRevalDurationDays'' \<mapsto> ''1'', ''dsId'' \<mapsto> ''5'']"
  let ?q = "readQuery @ newline
       @ ''WHERE invalidation.job_deliveryservice=:dsId AND ds.tenant_id = ANY(:tenants) ''
       @ maxDays_predicate"
  have x: "executed (snd (Read E0 ?i (Some 10) True (begin_tx db1 [])))
     = [GetUserTenantIDList,
        SelectMaxLastUpdated (selectMaxLastUpdatedQuery (newline
          @ ''WHERE invalidation.job_deliveryservice=:dsId AND ds.tenant_id = ANY(:tenants) ''
          @ maxDays_predicate)),
        SelectJobs ?q]"
    by code_simp
  have r: "fst (Read E0 ?i (Some 10) True (begin_tx db1 []))
     = ReadReturn (Some []) None None StatusOK (Some 50)"
    by code_simp
  have s: "SelectJobs ?q \<in> set (executed (snd (Read E0 ?i (Some 10) True (begin_tx db1 []))))"
    unfolding x by simp
  from Read_predicate[OF s] r x show ?thesis by blast
qed

section \<open>A target that is absent or out of the tenancy of the user\<close>








end
